theory Spec2Isabelle
  imports Complex_Main "HOL-Library.Word" "HOL-Library.Multiset"
begin

unbundle bit_operations_syntax

section \<open>The oneAPI backend of the LC0 evaluator (native/oneapi/lc0j\_oneapi\_jni.cpp)\<close>

text \<open>
  The translation unit loads an LC0J weights file into device memory and runs one forward
  pass per call. The embedding follows the source function by function.

  Modelling conventions:
  \<^item> A C++ \<open>float\<close> is a \<open>real\<close>: arithmetic is exact, rounding is not modelled.
  \<^item> A C++ \<open>int\<close> is an \<open>int\<close> that holds a 32-bit value; the products of channel
    counts that the source computes are taken without wrap-around (signed overflow is
    undefined in C++).
  \<^item> A device pointer is a \<open>nat option\<close>, \<open>None\<close> being \<open>nullptr\<close>.
  \<^item> The SYCL runtime is the record \<open>device\<close>: a counter for fresh addresses, the log of
    allocations and of frees, the contents of the buffers that hold weights, and a script
    that fixes the outcome of each fallible runtime call still to come (queue construction,
    allocation, blocking copy), consumed in call order. An empty script means success.
  \<^item> The weights file is the list of its bytes; a read consumes a prefix.
\<close>

subsection \<open>Device runtime\<close>

type_synonym ptr = "nat option"

record device =
  next_ptr :: nat
  allocs :: "(nat \<times> nat) list"
  frees :: "nat list"
  script :: "bool list"
  fmem :: "nat \<Rightarrow> real list"
  imem :: "nat \<Rightarrow> int list"

definition dev_op :: "device \<Rightarrow> bool \<times> device" where
  "dev_op dev = (case script dev of
       [] \<Rightarrow> (True, dev)
     | ok # rest \<Rightarrow> (ok, dev\<lparr>script := rest\<rparr>))"

definition sycl_free :: "device \<Rightarrow> ptr \<Rightarrow> device" where
  "sycl_free dev p = (case p of
       None \<Rightarrow> dev
     | Some a \<Rightarrow> dev\<lparr>frees := a # frees dev\<rparr>)"

definition sycl_alloc :: "device \<Rightarrow> nat \<Rightarrow> bool \<times> ptr \<times> device" where
  "sycl_alloc dev n = (case dev_op dev of (ok, dev1) \<Rightarrow>
     if ok
     then (True, Some (next_ptr dev1),
           dev1\<lparr>next_ptr := Suc (next_ptr dev1),
                allocs := (next_ptr dev1, n) # allocs dev1\<rparr>)
     else (False, None, dev1))"

definition sycl_copy_to_device :: "device \<Rightarrow> ptr \<Rightarrow> real list \<Rightarrow> bool \<times> device" where
  "sycl_copy_to_device dev dst src = (case dev_op dev of (ok, dev1) \<Rightarrow>
     if ok
     then (True, case dst of None \<Rightarrow> dev1
                 | Some a \<Rightarrow> dev1\<lparr>fmem := (fmem dev1)(a := src)\<rparr>)
     else (False, dev1))"

definition sycl_copy_ints_to_device :: "device \<Rightarrow> ptr \<Rightarrow> int list \<Rightarrow> bool \<times> device" where
  "sycl_copy_ints_to_device dev dst src = (case dev_op dev of (ok, dev1) \<Rightarrow>
     if ok
     then (True, case dst of None \<Rightarrow> dev1
                 | Some a \<Rightarrow> dev1\<lparr>imem := (imem dev1)(a := src)\<rparr>)
     else (False, dev1))"

text \<open>
  \<open>static_cast<size_t>\<close> of a 32-bit \<open>int\<close> on a 64-bit target, and
  \<open>static_cast<size_t>(c) * 64\<close>, which wraps around only when \<open>c\<close> is negative.
\<close>

definition size_t_of :: "int \<Rightarrow> nat" where
  "size_t_of i = (if 0 \<le> i then nat i else nat (2 ^ 64 + i))"

definition total64 :: "int \<Rightarrow> nat" where
  "total64 c = (if 0 \<le> c then nat c * 64 else (size_t_of c * 64) mod 2 ^ 64)"

text \<open>The buffers still allocated: every address of the allocation log, less the frees.\<close>

definition live :: "device \<Rightarrow> nat multiset" where
  "live dev = mset (map fst (allocs dev)) - mset (frees dev)"

subsection \<open>Model structures\<close>

record ConvLayer =
  conv_inC :: int
  conv_outC :: int
  conv_k :: int
  conv_d_w :: ptr
  conv_d_b :: ptr
  conv_params :: int

record DenseLayer =
  dense_inD :: int
  dense_outD :: int
  dense_d_w :: ptr
  dense_d_b :: ptr
  dense_params :: int

record SeUnit =
  se_channels :: int
  se_hidden :: int
  se_d_w1 :: ptr
  se_d_b1 :: ptr
  se_d_w2 :: ptr
  se_d_b2 :: ptr
  se_params :: int

record ResidualBlock =
  conv1 :: ConvLayer
  conv2 :: ConvLayer
  hasSe :: bool
  se :: SeUnit

record SyclNet =
  inputC :: int
  trunkC :: int
  blocks :: int
  policyC :: int
  valueC :: int
  valueHidden :: int
  policySize :: int
  paramCount :: int
  inputLayer :: ConvLayer
  tower :: "ResidualBlock list"
  policyStem :: ConvLayer
  policyOut :: ConvLayer
  valueConv :: ConvLayer
  valueFc1 :: DenseLayer
  valueFc2 :: DenseLayer
  d_policyMap :: ptr
  policyMapLen :: int
  d_policyMapped :: ptr
  d_in :: ptr
  d_cur :: ptr
  d_next :: ptr
  d_tmp :: ptr
  d_scratch :: ptr
  d_policyHidden :: ptr
  d_policyPlanes :: ptr
  d_valueInput :: ptr
  d_fc1 :: ptr
  d_logits :: ptr
  d_sePooled :: ptr
  d_seHidden :: ptr
  d_seGates :: ptr
  seMaxHidden :: int

text \<open>The default member initialisers of the structs.\<close>

definition ConvLayer0 :: ConvLayer where
  "ConvLayer0 = \<lparr>conv_inC = 0, conv_outC = 0, conv_k = 0, conv_d_w = None, conv_d_b = None,
     conv_params = 0\<rparr>"

definition DenseLayer0 :: DenseLayer where
  "DenseLayer0 = \<lparr>dense_inD = 0, dense_outD = 0, dense_d_w = None, dense_d_b = None,
     dense_params = 0\<rparr>"

definition SeUnit0 :: SeUnit where
  "SeUnit0 = \<lparr>se_channels = 0, se_hidden = 0, se_d_w1 = None, se_d_b1 = None,
     se_d_w2 = None, se_d_b2 = None, se_params = 0\<rparr>"

definition ResidualBlock0 :: ResidualBlock where
  "ResidualBlock0 = \<lparr>conv1 = ConvLayer0, conv2 = ConvLayer0, hasSe = False, se = SeUnit0\<rparr>"

definition SyclNet0 :: SyclNet where
  "SyclNet0 = \<lparr>inputC = 0, trunkC = 0, blocks = 0, policyC = 0, valueC = 0, valueHidden = 0,
     policySize = 0, paramCount = 0, inputLayer = ConvLayer0, tower = [],
     policyStem = ConvLayer0, policyOut = ConvLayer0, valueConv = ConvLayer0,
     valueFc1 = DenseLayer0, valueFc2 = DenseLayer0, d_policyMap = None, policyMapLen = 0,
     d_policyMapped = None, d_in = None, d_cur = None, d_next = None, d_tmp = None,
     d_scratch = None, d_policyHidden = None, d_policyPlanes = None, d_valueInput = None,
     d_fc1 = None, d_logits = None, d_sePooled = None, d_seHidden = None, d_seGates = None,
     seMaxHidden = 0\<rparr>"

subsection \<open>File parsing helpers (LC0J .bin)\<close>

type_synonym byte = "8 word"
type_synonym stream = "byte list"

text \<open>Four bytes in native (little-endian) order as a 32-bit pattern.\<close>

definition le32 :: "byte list \<Rightarrow> 32 word" where
  "le32 bs = word_of_int (uint (bs ! 0) + 256 * uint (bs ! 1) + 65536 * uint (bs ! 2)
                          + 16777216 * uint (bs ! 3))"

text \<open>
  The real number an IEEE binary32 pattern denotes. The patterns with exponent 255
  (infinities, NaN) denote no real number and are read by the formula of the normal ones.
\<close>

definition float_of_bits :: "32 word \<Rightarrow> real" where
  "float_of_bits v =
     (let n = uint v;
          sg = (if 2 ^ 31 \<le> n then - 1 else 1 :: real);
          e = (n div 2 ^ 23) mod 256;
          m = n mod 2 ^ 23
      in if e = 0 then sg * of_int m / 2 ^ 149
         else if 150 \<le> e then sg * of_int (2 ^ 23 + m) * 2 ^ nat (e - 150)
         else sg * of_int (2 ^ 23 + m) / 2 ^ nat (150 - e))"

fun floats_of_bytes :: "byte list \<Rightarrow> real list" where
  "floats_of_bytes (b0 # b1 # b2 # b3 # bs) =
     float_of_bits (le32 [b0, b1, b2, b3]) # floats_of_bytes bs"
| "floats_of_bytes _ = []"

fun ints_of_bytes :: "byte list \<Rightarrow> int list" where
  "ints_of_bytes (b0 # b1 # b2 # b3 # bs) = sint (le32 [b0, b1, b2, b3]) # ints_of_bytes bs"
| "ints_of_bytes _ = []"

text \<open>
  The readers return the \<open>bool\<close> of the source (the state of the stream after the read),
  the value read and the rest of the stream. A read that asks for more bytes than are left
  fails and exhausts the stream.
\<close>

definition read_bytes :: "stream \<Rightarrow> nat \<Rightarrow> bool \<times> byte list \<times> stream" where
  "read_bytes f n = (if n \<le> length f then (True, take n f, drop n f) else (False, f, []))"

definition read_u8 :: "stream \<Rightarrow> bool \<times> byte \<times> stream" where
  "read_u8 f = (case read_bytes f 1 of (ok, bs, f1) \<Rightarrow>
     if ok then (True, bs ! 0, f1) else (False, 0, f1))"

definition read_i32 :: "stream \<Rightarrow> bool \<times> int \<times> stream" where
  "read_i32 f = (case read_bytes f 4 of (ok, bs, f1) \<Rightarrow>
     if ok then (True, sint (le32 bs), f1) else (False, 0, f1))"

definition read_float_array :: "stream \<Rightarrow> bool \<times> real list \<times> stream" where
  "read_float_array f = (case read_i32 f of (ok, sz, f1) \<Rightarrow>
     if \<not> ok then (False, [], f1) else
     if sz < 0 then (False, [], f1) else
     case read_bytes f1 (4 * nat sz) of (ok2, bs, f2) \<Rightarrow>
     if ok2 then (True, floats_of_bytes bs, f2) else (False, [], f2))"

subsection \<open>Layer loaders\<close>

text \<open>
  Each loader takes the stream, the struct it fills and the device, and returns the
  \<open>bool\<close> of the source with the three updated. The struct is returned on failure as well:
  the caller's teardown walks whatever the loader left in it.
\<close>

definition load_conv :: "stream \<Rightarrow> ConvLayer \<Rightarrow> device \<Rightarrow> bool \<times> stream \<times> ConvLayer \<times> device" where
  "load_conv f out dev =
    (case read_i32 f of (r1, inC, f1) \<Rightarrow>
     if \<not> r1 then (False, f1, out, dev) else
     case read_i32 f1 of (r2, outC, f2) \<Rightarrow>
     if \<not> r2 then (False, f2, out, dev) else
     case read_i32 f2 of (r3, k, f3) \<Rightarrow>
     if \<not> r3 then (False, f3, out, dev) else
     if inC \<le> 0 \<or> outC \<le> 0 \<or> (k \<noteq> 1 \<and> k \<noteq> 3) then (False, f3, out, dev) else
     let out1 = out\<lparr>conv_inC := inC, conv_outC := outC, conv_k := k\<rparr> in
     case read_float_array f3 of (r4, w, f4) \<Rightarrow>
     if \<not> r4 then (False, f4, out1, dev) else
     case read_float_array f4 of (r5, b, f5) \<Rightarrow>
     if \<not> r5 then (False, f5, out1, dev) else
     if int (length w) \<noteq> outC * inC * k * k then (False, f5, out1, dev) else
     if int (length b) \<noteq> outC then (False, f5, out1, dev) else
     let out2 = out1\<lparr>conv_params := int (length w + length b)\<rparr> in
     case sycl_alloc dev (length w) of (ok1, p_w, dev1) \<Rightarrow>
     let out3 = out2\<lparr>conv_d_w := p_w\<rparr> in
     if \<not> ok1 then (False, f5, out3, dev1) else
     case sycl_alloc dev1 (length b) of (ok2, p_b, dev2) \<Rightarrow>
     let out4 = out3\<lparr>conv_d_b := p_b\<rparr> in
     if \<not> ok2 then (False, f5, out4, dev2) else
     case sycl_copy_to_device dev2 (conv_d_w out4) w of (ok3, dev3) \<Rightarrow>
     if \<not> ok3 then (False, f5, out4, dev3) else
     case sycl_copy_to_device dev3 (conv_d_b out4) b of (ok4, dev4) \<Rightarrow>
     if \<not> ok4 then (False, f5, out4, dev4) else
     (True, f5, out4, dev4))"

definition load_dense ::
  "stream \<Rightarrow> DenseLayer \<Rightarrow> int \<Rightarrow> device \<Rightarrow> bool \<times> stream \<times> DenseLayer \<times> device" where
  "load_dense f out expectedOut dev =
    (case read_i32 f of (r1, inD, f1) \<Rightarrow>
     if \<not> r1 then (False, f1, out, dev) else
     case read_i32 f1 of (r2, outD, f2) \<Rightarrow>
     if \<not> r2 then (False, f2, out, dev) else
     if inD \<le> 0 \<or> outD \<le> 0 \<or> outD \<noteq> expectedOut then (False, f2, out, dev) else
     let out1 = out\<lparr>dense_inD := inD, dense_outD := outD\<rparr> in
     case read_float_array f2 of (r3, w, f3) \<Rightarrow>
     if \<not> r3 then (False, f3, out1, dev) else
     case read_float_array f3 of (r4, b, f4) \<Rightarrow>
     if \<not> r4 then (False, f4, out1, dev) else
     if int (length w) \<noteq> outD * inD then (False, f4, out1, dev) else
     if int (length b) \<noteq> outD then (False, f4, out1, dev) else
     let out2 = out1\<lparr>dense_params := int (length w + length b)\<rparr> in
     case sycl_alloc dev (length w) of (ok1, p_w, dev1) \<Rightarrow>
     let out3 = out2\<lparr>dense_d_w := p_w\<rparr> in
     if \<not> ok1 then (False, f4, out3, dev1) else
     case sycl_alloc dev1 (length b) of (ok2, p_b, dev2) \<Rightarrow>
     let out4 = out3\<lparr>dense_d_b := p_b\<rparr> in
     if \<not> ok2 then (False, f4, out4, dev2) else
     case sycl_copy_to_device dev2 (dense_d_w out4) w of (ok3, dev3) \<Rightarrow>
     if \<not> ok3 then (False, f4, out4, dev3) else
     case sycl_copy_to_device dev3 (dense_d_b out4) b of (ok4, dev4) \<Rightarrow>
     if \<not> ok4 then (False, f4, out4, dev4) else
     (True, f4, out4, dev4))"

text \<open>
  \<open>load_se\<close> also returns its two reference parameters, \<open>present\<close> and \<open>maxHidden\<close>.
\<close>

definition load_se ::
  "stream \<Rightarrow> SeUnit \<Rightarrow> bool \<Rightarrow> int \<Rightarrow> int \<Rightarrow> device
     \<Rightarrow> bool \<times> stream \<times> SeUnit \<times> bool \<times> int \<times> device" where
  "load_se f out present channels maxHidden dev =
    (case read_u8 f of (r0, p, f1) \<Rightarrow>
     if \<not> r0 then (False, f1, out, present, maxHidden, dev) else
     let present1 = (p \<noteq> 0) in
     if \<not> present1 then (True, f1, out, present1, maxHidden, dev) else
     case read_i32 f1 of (r1, hidden, f2) \<Rightarrow>
     if \<not> r1 then (False, f2, out, present1, maxHidden, dev) else
     case read_i32 f2 of (r2, expectedChannels, f3) \<Rightarrow>
     if \<not> r2 then (False, f3, out, present1, maxHidden, dev) else
     if expectedChannels \<noteq> channels then (False, f3, out, present1, maxHidden, dev) else
     case read_float_array f3 of (r3, w1, f4) \<Rightarrow>
     if \<not> r3 then (False, f4, out, present1, maxHidden, dev) else
     case read_float_array f4 of (r4, b1, f5) \<Rightarrow>
     if \<not> r4 then (False, f5, out, present1, maxHidden, dev) else
     case read_float_array f5 of (r5, w2, f6) \<Rightarrow>
     if \<not> r5 then (False, f6, out, present1, maxHidden, dev) else
     case read_float_array f6 of (r6, b2, f7) \<Rightarrow>
     if \<not> r6 then (False, f7, out, present1, maxHidden, dev) else
     let out1 = out\<lparr>se_channels := channels, se_hidden := hidden,
                    se_params := int (length w1 + length b1 + length w2 + length b2)\<rparr>;
         maxHidden1 = max maxHidden hidden in
     case sycl_alloc dev (length w1) of (ok1, p_w1, dev1) \<Rightarrow>
     let out2 = out1\<lparr>se_d_w1 := p_w1\<rparr> in
     if \<not> ok1 then (False, f7, out2, present1, maxHidden1, dev1) else
     case sycl_alloc dev1 (length b1) of (ok2, p_b1, dev2) \<Rightarrow>
     let out3 = out2\<lparr>se_d_b1 := p_b1\<rparr> in
     if \<not> ok2 then (False, f7, out3, present1, maxHidden1, dev2) else
     case sycl_alloc dev2 (length w2) of (ok3, p_w2, dev3) \<Rightarrow>
     let out4 = out3\<lparr>se_d_w2 := p_w2\<rparr> in
     if \<not> ok3 then (False, f7, out4, present1, maxHidden1, dev3) else
     case sycl_alloc dev3 (length b2) of (ok4, p_b2, dev4) \<Rightarrow>
     let out5 = out4\<lparr>se_d_b2 := p_b2\<rparr> in
     if \<not> ok4 then (False, f7, out5, present1, maxHidden1, dev4) else
     case sycl_copy_to_device dev4 (se_d_w1 out5) w1 of (ok5, dev5) \<Rightarrow>
     if \<not> ok5 then (False, f7, out5, present1, maxHidden1, dev5) else
     case sycl_copy_to_device dev5 (se_d_b1 out5) b1 of (ok6, dev6) \<Rightarrow>
     if \<not> ok6 then (False, f7, out5, present1, maxHidden1, dev6) else
     case sycl_copy_to_device dev6 (se_d_w2 out5) w2 of (ok7, dev7) \<Rightarrow>
     if \<not> ok7 then (False, f7, out5, present1, maxHidden1, dev7) else
     case sycl_copy_to_device dev7 (se_d_b2 out5) b2 of (ok8, dev8) \<Rightarrow>
     if \<not> ok8 then (False, f7, out5, present1, maxHidden1, dev8) else
     (True, f7, out5, present1, maxHidden1, dev8))"

subsection \<open>Teardown\<close>

definition freeConv :: "device \<Rightarrow> ConvLayer \<Rightarrow> device" where
  "freeConv dev c = sycl_free (sycl_free dev (conv_d_w c)) (conv_d_b c)"

definition freeDense :: "device \<Rightarrow> DenseLayer \<Rightarrow> device" where
  "freeDense dev d = sycl_free (sycl_free dev (dense_d_w d)) (dense_d_b d)"

definition freeSe :: "device \<Rightarrow> SeUnit \<Rightarrow> device" where
  "freeSe dev s =
     sycl_free (sycl_free (sycl_free (sycl_free dev (se_d_w1 s)) (se_d_b1 s)) (se_d_w2 s))
       (se_d_b2 s)"

definition freeBlock :: "ResidualBlock \<Rightarrow> device \<Rightarrow> device" where
  "freeBlock b dev =
     (let dev1 = freeConv dev (conv1 b);
          dev2 = freeConv dev1 (conv2 b)
      in if hasSe b then freeSe dev2 (se b) else dev2)"

text \<open>\<open>destroy_net\<close> of a null handle does nothing.\<close>

definition destroy_net :: "SyclNet option \<Rightarrow> device \<Rightarrow> device" where
  "destroy_net h dev = (case h of
       None \<Rightarrow> dev
     | Some net \<Rightarrow>
        (let dev1 = freeConv dev (inputLayer net);
             dev2 = fold freeBlock (tower net) dev1;
             dev3 = freeConv dev2 (policyStem net);
             dev4 = freeConv dev3 (policyOut net);
             dev5 = freeConv dev4 (valueConv net);
             dev6 = freeDense dev5 (valueFc1 net);
             dev7 = freeDense dev6 (valueFc2 net)
         in fold (\<lambda>p d. sycl_free d p)
              [d_policyMap net, d_policyMapped net, d_in net, d_cur net, d_next net,
               d_tmp net, d_scratch net, d_policyHidden net, d_policyPlanes net,
               d_valueInput net, d_fc1 net, d_logits net, d_sePooled net, d_seHidden net,
               d_seGates net]
              dev7))"

subsection \<open>Construction\<close>

text \<open>The eight header fields, in file order.\<close>

record header =
  h_inputC :: int
  h_trunkC :: int
  h_blocks :: int
  h_policyC :: int
  h_valueC :: int
  h_valueHidden :: int
  h_policyMapLen :: int
  h_wdlOutputs :: int

definition read_header :: "stream \<Rightarrow> bool \<times> header \<times> stream" where
  "read_header f =
    (let h0 = \<lparr>h_inputC = 0, h_trunkC = 0, h_blocks = 0, h_policyC = 0, h_valueC = 0,
               h_valueHidden = 0, h_policyMapLen = 0, h_wdlOutputs = 0\<rparr> in
     case read_i32 f of (r1, v1, f1) \<Rightarrow> if \<not> r1 then (False, h0, f1) else
     case read_i32 f1 of (r2, v2, f2) \<Rightarrow> if \<not> r2 then (False, h0, f2) else
     case read_i32 f2 of (r3, v3, f3) \<Rightarrow> if \<not> r3 then (False, h0, f3) else
     case read_i32 f3 of (r4, v4, f4) \<Rightarrow> if \<not> r4 then (False, h0, f4) else
     case read_i32 f4 of (r5, v5, f5) \<Rightarrow> if \<not> r5 then (False, h0, f5) else
     case read_i32 f5 of (r6, v6, f6) \<Rightarrow> if \<not> r6 then (False, h0, f6) else
     case read_i32 f6 of (r7, v7, f7) \<Rightarrow> if \<not> r7 then (False, h0, f7) else
     case read_i32 f7 of (r8, v8, f8) \<Rightarrow> if \<not> r8 then (False, h0, f8) else
     (True, \<lparr>h_inputC = v1, h_trunkC = v2, h_blocks = v3, h_policyC = v4, h_valueC = v5,
             h_valueHidden = v6, h_policyMapLen = v7, h_wdlOutputs = v8\<rparr>, f8))"

text \<open>
  How a stretch of \<open>create_net\<close> ends: it ran through, it took a \<open>return fail()\<close>, or a
  C++ exception left the function. \<open>std::vector\<close> throws \<open>std::length_error\<close> when it
  is asked for \<open>static_cast<size_t>(n)\<close> elements with \<open>n\<close> negative; no handler catches
  it, and the \<open>std::unique_ptr\<close> that owns the net then deletes it without
  \<open>destroy_net\<close>.
\<close>

datatype outcome = Done | Failed | Thrown

text \<open>The body of the loop over the residual blocks; \<open>b\<close> is a reference into the tower.\<close>

definition load_block ::
  "nat \<Rightarrow> stream \<Rightarrow> SyclNet \<Rightarrow> int \<Rightarrow> device \<Rightarrow> bool \<times> stream \<times> SyclNet \<times> int \<times> device" where
  "load_block i f net maxHidden dev =
    (let b = tower net ! i in
     case load_conv f (conv1 b) dev of (ok1, f1, c1, dev1) \<Rightarrow>
     let b1 = b\<lparr>conv1 := c1\<rparr>;
         net1 = net\<lparr>tower := (tower net)[i := b1]\<rparr> in
     if \<not> ok1 then (False, f1, net1, maxHidden, dev1) else
     case load_conv f1 (conv2 b1) dev1 of (ok2, f2, c2, dev2) \<Rightarrow>
     let b2 = b1\<lparr>conv2 := c2\<rparr>;
         net2 = net1\<lparr>tower := (tower net1)[i := b2]\<rparr> in
     if \<not> ok2 then (False, f2, net2, maxHidden, dev2) else
     let net3 = net2\<lparr>paramCount := paramCount net2 + conv_params (conv1 b2)
                                     + conv_params (conv2 b2)\<rparr> in
     case load_se f2 (se b2) False (conv_outC (conv2 b2)) maxHidden dev2 of
       (ok3, f3, s3, present, maxHidden1, dev3) \<Rightarrow>
     let b3 = b2\<lparr>se := s3\<rparr>;
         net4 = net3\<lparr>tower := (tower net3)[i := b3]\<rparr> in
     if \<not> ok3 then (False, f3, net4, maxHidden1, dev3) else
     let b4 = b3\<lparr>hasSe := present\<rparr>;
         net5 = net4\<lparr>tower := (tower net4)[i := b4]\<rparr>;
         net6 = (if hasSe b4 then net5\<lparr>paramCount := paramCount net5 + se_params (se b4)\<rparr>
                 else net5)
     in (True, f3, net6, maxHidden1, dev3))"

text \<open>\<open>load_blocks n i\<close> runs the loop from index \<open>i\<close> for the \<open>n\<close> blocks that remain.\<close>

primrec load_blocks ::
  "nat \<Rightarrow> nat \<Rightarrow> stream \<Rightarrow> SyclNet \<Rightarrow> int \<Rightarrow> device
     \<Rightarrow> bool \<times> stream \<times> SyclNet \<times> int \<times> device" where
  "load_blocks 0 i f net maxHidden dev = (True, f, net, maxHidden, dev)"
| "load_blocks (Suc n) i f net maxHidden dev =
    (case load_block i f net maxHidden dev of (ok, f1, net1, maxHidden1, dev1) \<Rightarrow>
     if ok then load_blocks n (Suc i) f1 net1 maxHidden1 dev1
     else (False, f1, net1, maxHidden1, dev1))"

text \<open>\<open>create_net\<close> from the input layer to the second dense layer of the value head.\<close>

definition load_layers ::
  "header \<Rightarrow> stream \<Rightarrow> SyclNet \<Rightarrow> device \<Rightarrow> outcome \<times> stream \<times> SyclNet \<times> device" where
  "load_layers hdr f net dev =
    (case load_conv f (inputLayer net) dev of (ok0, f1, c0, dev1) \<Rightarrow>
     let net1 = net\<lparr>inputLayer := c0\<rparr> in
     if \<not> ok0 then (Failed, f1, net1, dev1) else
     let net2 = net1\<lparr>paramCount := paramCount net1 + conv_params (inputLayer net1)\<rparr> in
     if h_blocks hdr < 0 then (Thrown, f1, net2, dev1) else
     let net3 = net2\<lparr>tower := replicate (nat (h_blocks hdr)) ResidualBlock0\<rparr> in
     case load_blocks (nat (h_blocks hdr)) 0 f1 net3 0 dev1 of
       (okb, f2, net4, maxHidden, dev2) \<Rightarrow>
     if \<not> okb then (Failed, f2, net4, dev2) else
     let net5 = net4\<lparr>seMaxHidden := maxHidden\<rparr> in
     case load_conv f2 (policyStem net5) dev2 of (ok1, f3, c1, dev3) \<Rightarrow>
     let net6 = net5\<lparr>policyStem := c1\<rparr> in
     if \<not> ok1 then (Failed, f3, net6, dev3) else
     case load_conv f3 (policyOut net6) dev3 of (ok2, f4, c2, dev4) \<Rightarrow>
     let net7 = net6\<lparr>policyOut := c2\<rparr> in
     if \<not> ok2 then (Failed, f4, net7, dev4) else
     case load_conv f4 (valueConv net7) dev4 of (ok3, f5, c3, dev5) \<Rightarrow>
     let net8 = net7\<lparr>valueConv := c3\<rparr> in
     if \<not> ok3 then (Failed, f5, net8, dev5) else
     if conv_outC (policyOut net8) \<noteq> h_policyC hdr then (Failed, f5, net8, dev5) else
     if conv_outC (valueConv net8) \<noteq> h_valueC hdr then (Failed, f5, net8, dev5) else
     let net9 = net8\<lparr>paramCount := paramCount net8 + conv_params (policyStem net8)
                          + conv_params (policyOut net8) + conv_params (valueConv net8)\<rparr> in
     case load_dense f5 (valueFc1 net9) (h_valueHidden hdr) dev5 of (ok4, f6, d1, dev6) \<Rightarrow>
     let net10 = net9\<lparr>valueFc1 := d1\<rparr> in
     if \<not> ok4 then (Failed, f6, net10, dev6) else
     case load_dense f6 (valueFc2 net10) 3 dev6 of (ok5, f7, d2, dev7) \<Rightarrow>
     let net11 = net10\<lparr>valueFc2 := d2\<rparr> in
     if \<not> ok5 then (Failed, f7, net11, dev7) else
     let net12 = net11\<lparr>paramCount := paramCount net11 + dense_params (valueFc1 net11)
                            + dense_params (valueFc2 net11)\<rparr>
     in (Done, f7, net12, dev7))"

text \<open>The policy map and the test for the end of the file.\<close>

definition load_policy_map ::
  "header \<Rightarrow> stream \<Rightarrow> SyclNet \<Rightarrow> device \<Rightarrow> outcome \<times> stream \<times> SyclNet \<times> device" where
  "load_policy_map hdr f net dev =
    (case read_i32 f of (r1, mapEntries, f1) \<Rightarrow>
     if \<not> r1 then (Failed, f1, net, dev) else
     if mapEntries \<noteq> h_policyMapLen hdr then (Failed, f1, net, dev) else
     if mapEntries < 0 then (Thrown, f1, net, dev) else
     case read_bytes f1 (4 * nat mapEntries) of (r2, bs, f2) \<Rightarrow>
     if \<not> r2 then (Failed, f2, net, dev) else
     let policyMap = ints_of_bytes bs in
     case sycl_alloc dev (length policyMap) of (ok1, p, dev1) \<Rightarrow>
     let net1 = net\<lparr>d_policyMap := p\<rparr> in
     if \<not> ok1 then (Failed, f2, net1, dev1) else
     case sycl_copy_ints_to_device dev1 (d_policyMap net1) policyMap of (ok2, dev2) \<Rightarrow>
     if \<not> ok2 then (Failed, f2, net1, dev2) else
     if f2 \<noteq> [] then (Failed, f2, net1, dev2) else
     (Done, f2, net1, dev2))"

text \<open>One workspace allocation: \<open>if (!sycl_alloc(net->q, &net->field, n)) return fail();\<close>\<close>

definition alloc_ws ::
  "(ptr \<Rightarrow> SyclNet \<Rightarrow> SyclNet) \<times> nat \<Rightarrow> bool \<times> SyclNet \<times> device \<Rightarrow> bool \<times> SyclNet \<times> device" where
  "alloc_ws req st = (case req of (upd, n) \<Rightarrow> case st of (ok, net, dev) \<Rightarrow>
     if \<not> ok then (False, net, dev) else
     case sycl_alloc dev n of (ok1, p, dev1) \<Rightarrow> (ok1, upd p net, dev1))"

definition alloc_workspace :: "header \<Rightarrow> SyclNet \<Rightarrow> device \<Rightarrow> bool \<times> SyclNet \<times> device" where
  "alloc_workspace hdr net dev =
     fold alloc_ws
       [(\<lambda>p n. n\<lparr>d_in := p\<rparr>, total64 (h_inputC hdr)),
        (\<lambda>p n. n\<lparr>d_cur := p\<rparr>, total64 (h_trunkC hdr)),
        (\<lambda>p n. n\<lparr>d_next := p\<rparr>, total64 (h_trunkC hdr)),
        (\<lambda>p n. n\<lparr>d_tmp := p\<rparr>, total64 (h_trunkC hdr)),
        (\<lambda>p n. n\<lparr>d_scratch := p\<rparr>, total64 (h_trunkC hdr)),
        (\<lambda>p n. n\<lparr>d_policyHidden := p\<rparr>, total64 (h_trunkC hdr)),
        (\<lambda>p n. n\<lparr>d_policyPlanes := p\<rparr>, total64 (h_policyC hdr)),
        (\<lambda>p n. n\<lparr>d_valueInput := p\<rparr>, total64 (h_valueC hdr)),
        (\<lambda>p n. n\<lparr>d_fc1 := p\<rparr>, size_t_of (h_valueHidden hdr)),
        (\<lambda>p n. n\<lparr>d_logits := p\<rparr>, 3),
        (\<lambda>p n. n\<lparr>d_sePooled := p\<rparr>, size_t_of (h_trunkC hdr)),
        (\<lambda>p n. n\<lparr>d_seHidden := p\<rparr>,
           if seMaxHidden net > 0 then size_t_of (seMaxHidden net) else 1),
        (\<lambda>p n. n\<lparr>d_seGates := p\<rparr>, size_t_of (2 * h_trunkC hdr)),
        (\<lambda>p n. n\<lparr>d_policyMapped := p\<rparr>, size_t_of (policySize net))]
       (True, net, dev)"

text \<open>
  \<open>create_net\<close> after the header has been stored in the net: every \<open>return fail()\<close> of the
  source is the outcome \<open>Failed\<close>.
\<close>

definition load_model :: "header \<Rightarrow> stream \<Rightarrow> SyclNet \<Rightarrow> device \<Rightarrow> outcome \<times> SyclNet \<times> device" where
  "load_model hdr f net dev =
    (case load_layers hdr f net dev of (o1, f1, net1, dev1) \<Rightarrow>
     if o1 \<noteq> Done then (o1, net1, dev1) else
     case load_policy_map hdr f1 net1 dev1 of (o2, f2, net2, dev2) \<Rightarrow>
     if o2 \<noteq> Done then (o2, net2, dev2) else
     case alloc_workspace hdr net2 dev2 of (ok, net3, dev3) \<Rightarrow>
     if ok then (Done, net3, dev3) else (Failed, net3, dev3))"

datatype create_result = Handle SyclNet | Null | Throws

text \<open>
  \<open>create_net gpus file dev\<close>: \<open>gpus\<close> is the number of Intel GPUs the runtime lists and
  \<open>file\<close> the bytes of the file at the path, \<open>None\<close> when it cannot be opened.
\<close>

definition create_net :: "nat \<Rightarrow> stream option \<Rightarrow> device \<Rightarrow> create_result \<times> device" where
  "create_net gpus file dev =
    (if int gpus \<le> 0 then (Null, dev) else
     if gpus = 0 then (Null, dev) else
     case dev_op dev of (qok, dev0) \<Rightarrow>
     if \<not> qok then (Null, dev0) else
     (case file of None \<Rightarrow> (Null, dev0) | Some f \<Rightarrow>
      case read_bytes f 4 of (r1, magic, f1) \<Rightarrow>
      if \<not> r1 then (Null, dev0) else
      if magic ! 0 \<noteq> 76 \<or> magic ! 1 \<noteq> 67 \<or> magic ! 2 \<noteq> 48 \<or> magic ! 3 \<noteq> 74
      then (Null, dev0) else
      case read_i32 f1 of (r2, version, f2) \<Rightarrow>
      if \<not> r2 \<or> version \<noteq> 1 then (Null, dev0) else
      case read_header f2 of (r3, hdr, f3) \<Rightarrow>
      if \<not> r3 then (Null, dev0) else
      if h_wdlOutputs hdr \<noteq> 3 then (Null, dev0) else
      let net = SyclNet0\<lparr>inputC := h_inputC hdr, trunkC := h_trunkC hdr,
                  blocks := h_blocks hdr, policyC := h_policyC hdr, valueC := h_valueC hdr,
                  valueHidden := h_valueHidden hdr, policyMapLen := h_policyMapLen hdr,
                  policySize := h_policyMapLen hdr\<rparr> in
      case load_model hdr f3 net dev0 of (res, net1, dev1) \<Rightarrow>
      (case res of
         Done \<Rightarrow> (Handle net1, dev1)
       | Failed \<Rightarrow> (Null, destroy_net (Some net1) dev1)
       | Thrown \<Rightarrow> (Throws, dev1))))"

subsection \<open>SYCL kernels\<close>

text \<open>
  A kernel is a function from the contents of the buffers it reads to the new contents of
  the buffer it writes. \<open>parallel_for total item out\<close> is a launch over the range
  \<open>total\<close> in which work item \<open>tid\<close> stores \<open>item tid\<close> at \<open>out[tid]\<close>; the rest of
  the buffer keeps its contents. \<open>for_loop n body\<close> is
  \<open>for (int i = 0; i < n; i++)\<close> over an accumulator.
\<close>

definition parallel_for :: "nat \<Rightarrow> (nat \<Rightarrow> 'a) \<Rightarrow> 'a list \<Rightarrow> 'a list" where
  "parallel_for n item out = map item [0..<n] @ drop n out"

definition for_loop :: "int \<Rightarrow> (int \<Rightarrow> 'a \<Rightarrow> 'a) \<Rightarrow> 'a \<Rightarrow> 'a" where
  "for_loop n body acc = fold body (map int [0..<nat n]) acc"

definition relu :: "real \<Rightarrow> real" where
  "relu x = (if x > 0 then x else 0)"

definition sigmoid :: "real \<Rightarrow> real" where
  "sigmoid x = 1 / (1 + exp (- x))"

text \<open>
  The three loops of \<open>k_conv3x3_no_bias\<close>, innermost first. The state of the two inner
  loops is the pair of \<open>acc\<close> and \<open>wIdx\<close>; the \<open>continue\<close> of the innermost loop still
  runs its increment \<open>kx++, wIdx++\<close>.
\<close>

definition conv3x3_kx ::
  "real list \<Rightarrow> real list \<Rightarrow> int \<Rightarrow> int \<Rightarrow> int \<Rightarrow> int \<Rightarrow> real \<times> int \<Rightarrow> real \<times> int" where
  "conv3x3_kx input w inRowBase wBase col kx st = (case st of (acc, wIdx) \<Rightarrow>
     let c = col + kx in
     if c < 0 \<or> c \<ge> 8 then (acc, wIdx + 1)
     else (acc + input ! nat (inRowBase + c) * w ! nat (wBase + wIdx), wIdx + 1))"

definition conv3x3_ky ::
  "real list \<Rightarrow> real list \<Rightarrow> int \<Rightarrow> int \<Rightarrow> int \<Rightarrow> int \<Rightarrow> int \<Rightarrow> real \<times> int \<Rightarrow> real \<times> int" where
  "conv3x3_ky input w inBase wBase row col ky st = (case st of (acc, wIdx) \<Rightarrow>
     let r = row + ky in
     if r < 0 \<or> r \<ge> 8 then (acc, wIdx + 3)
     else let inRowBase = inBase + push_bit 3 r
          in fold (conv3x3_kx input w inRowBase wBase col) [- 1, 0, 1] (acc, wIdx))"

definition conv3x3_ic ::
  "real list \<Rightarrow> real list \<Rightarrow> int \<Rightarrow> int \<Rightarrow> int \<Rightarrow> int \<Rightarrow> real \<Rightarrow> real" where
  "conv3x3_ic input w ocBase row col ic acc =
     (let inBase = ic * 64;
          wBase = ocBase + ic * 9;
          wIdx = 0
      in fst (fold (conv3x3_ky input w inBase wBase row col) [- 1, 0, 1] (acc, wIdx)))"

definition k_conv3x3_no_bias ::
  "real list \<Rightarrow> real list \<Rightarrow> int \<Rightarrow> int \<Rightarrow> real list \<Rightarrow> real list" where
  "k_conv3x3_no_bias input w inC outC out =
     parallel_for (total64 outC) (\<lambda>tid.
       let idx = int tid;
           oc = drop_bit 6 idx;
           s = idx AND 63
       in if oc \<ge> outC then out ! tid
          else let row = drop_bit 3 s;
                   col = s AND 7;
                   kk = 9;
                   ocBase = oc * inC * kk
               in for_loop inC (conv3x3_ic input w ocBase row col) 0) out"

definition k_conv1x1_no_bias ::
  "real list \<Rightarrow> real list \<Rightarrow> int \<Rightarrow> int \<Rightarrow> real list \<Rightarrow> real list" where
  "k_conv1x1_no_bias input w inC outC out =
     parallel_for (total64 outC) (\<lambda>tid.
       let idx = int tid;
           oc = drop_bit 6 idx;
           s = idx AND 63
       in if oc \<ge> outC then out ! tid
          else let ocBase = oc * inC
               in for_loop inC
                    (\<lambda>ic acc. acc + input ! nat (ic * 64 + s) * w ! nat (ocBase + ic)) 0) out"

definition k_add_bias_relu :: "real list \<Rightarrow> real list \<Rightarrow> int \<Rightarrow> real list" where
  "k_add_bias_relu x b channels =
     parallel_for (total64 channels) (\<lambda>tid.
       let idx = int tid;
           ch = drop_bit 6 idx
       in relu (x ! nat idx + b ! nat ch)) x"

definition k_add_bias :: "real list \<Rightarrow> real list \<Rightarrow> int \<Rightarrow> real list" where
  "k_add_bias x b channels =
     parallel_for (total64 channels) (\<lambda>tid.
       let idx = int tid;
           ch = drop_bit 6 idx
       in x ! nat idx + b ! nat ch) x"

definition k_add_residual_relu ::
  "real list \<Rightarrow> real list \<Rightarrow> real list \<Rightarrow> int \<Rightarrow> real list \<Rightarrow> real list" where
  "k_add_residual_relu convOut bias residual channels dest =
     parallel_for (total64 channels) (\<lambda>tid.
       let idx = int tid;
           ch = drop_bit 6 idx;
           v = convOut ! nat idx + bias ! nat ch + residual ! nat idx
       in relu v) dest"

text \<open>
  \<open>k_se_pool\<close>: one work group of 64 items per channel. Between two barriers every item
  \<open>t < stride\<close> adds \<open>buf[t + stride]\<close> to \<open>buf[t]\<close>; no item reads a cell that another
  one writes in the same round, so a round is one simultaneous update of the local buffer.
\<close>

definition se_pool_round :: "nat \<Rightarrow> real list \<Rightarrow> real list" where
  "se_pool_round stride buf =
     map (\<lambda>t. if t < stride then buf ! t + buf ! (t + stride) else buf ! t) [0..<64]"

fun se_pool_reduce :: "nat \<Rightarrow> real list \<Rightarrow> real list" where
  "se_pool_reduce stride buf =
     (if stride > 0 then se_pool_reduce (stride div 2) (se_pool_round stride buf) else buf)"

definition k_se_pool :: "real list \<Rightarrow> real list \<Rightarrow> int \<Rightarrow> real list \<Rightarrow> real list" where
  "k_se_pool convOut bias channels pooled =
     (if channels \<le> 0 then pooled
      else parallel_for (size_t_of channels) (\<lambda>ch.
             let buf0 = map (\<lambda>t. convOut ! (ch * 64 + t)) [0..<64];
                 buf = se_pool_reduce 32 buf0
             in (buf ! 0 * (1 / 64)) + bias ! ch) pooled)"

definition k_se_fc1 ::
  "real list \<Rightarrow> real list \<Rightarrow> real list \<Rightarrow> int \<Rightarrow> int \<Rightarrow> real list \<Rightarrow> real list" where
  "k_se_fc1 pooled w1 b1 channels hidden outHidden =
     parallel_for (size_t_of hidden) (\<lambda>tid.
       let h = int tid;
           acc = for_loop channels
                   (\<lambda>ch acc. acc + w1 ! nat (h * channels + ch) * pooled ! nat ch)
                   (b1 ! nat h)
       in relu acc) outHidden"

definition k_se_fc2 ::
  "real list \<Rightarrow> real list \<Rightarrow> real list \<Rightarrow> int \<Rightarrow> int \<Rightarrow> real list \<Rightarrow> real list" where
  "k_se_fc2 hiddenVec w2 b2 hidden outDim gates =
     parallel_for (size_t_of outDim) (\<lambda>tid.
       let od = int tid
       in for_loop hidden
            (\<lambda>h acc. acc + w2 ! nat (od * hidden + h) * hiddenVec ! nat h)
            (b2 ! nat od)) gates"

definition k_se_apply ::
  "real list \<Rightarrow> real list \<Rightarrow> real list \<Rightarrow> real list \<Rightarrow> int \<Rightarrow> real list \<Rightarrow> real list" where
  "k_se_apply convOut bias residual gates channels dest =
     parallel_for (total64 channels) (\<lambda>tid.
       let idx = int tid;
           ch = drop_bit 6 idx;
           gamma = sigmoid (gates ! nat ch);
           betaExtra = gates ! nat (ch + channels);
           z = convOut ! nat idx + bias ! nat ch;
           v = gamma * z + residual ! nat idx + betaExtra
       in relu v) dest"

definition k_policy_map ::
  "real list \<Rightarrow> int \<Rightarrow> int list \<Rightarrow> int \<Rightarrow> real list \<Rightarrow> real list" where
  "k_policy_map planes planesLen policyMap outLen outPolicy =
     parallel_for (size_t_of outLen) (\<lambda>tid.
       let i = int tid;
           idx = policyMap ! nat i
       in if idx \<ge> 0 \<and> idx < planesLen then planes ! nat idx else 0) outPolicy"

definition k_dense ::
  "real list \<Rightarrow> real list \<Rightarrow> real list \<Rightarrow> int \<Rightarrow> int \<Rightarrow> int \<Rightarrow> real list \<Rightarrow> real list" where
  "k_dense x w b inD outD reluAct y =
     parallel_for (size_t_of outD) (\<lambda>tid.
       let od = int tid;
           acc = for_loop inD (\<lambda>i acc. acc + w ! nat (od * inD + i) * x ! nat i) (b ! nat od)
       in if reluAct \<noteq> 0 then relu acc else acc) y"

text \<open>The contents of a float buffer of the device; a null pointer has none.\<close>

definition rd :: "device \<Rightarrow> ptr \<Rightarrow> real list" where
  "rd dev p = (case p of None \<Rightarrow> [] | Some a \<Rightarrow> fmem dev a)"

definition rd_int :: "device \<Rightarrow> ptr \<Rightarrow> int list" where
  "rd_int dev p = (case p of None \<Rightarrow> [] | Some a \<Rightarrow> imem dev a)"

definition launch_conv_no_bias ::
  "device \<Rightarrow> ConvLayer \<Rightarrow> real list \<Rightarrow> real list \<Rightarrow> real list" where
  "launch_conv_no_bias dev layer input out =
     (if conv_k layer = 3
      then k_conv3x3_no_bias input (rd dev (conv_d_w layer)) (conv_inC layer) (conv_outC layer) out
      else if conv_k layer = 1
      then k_conv1x1_no_bias input (rd dev (conv_d_w layer)) (conv_inC layer) (conv_outC layer) out
      else out)"

subsection \<open>Forward pass\<close>

text \<open>
  The contents of the workspace buffers of a net, one field for the buffer that each
  workspace pointer of \<open>SyclNet\<close> addresses (\<open>m_cur\<close> is the buffer at \<open>d_cur\<close>, and so
  on). \<open>create_net\<close> obtains every one of them from an allocation of its own, so they are
  separate buffers.
\<close>

record workspace =
  m_in :: "real list"
  m_cur :: "real list"
  m_next :: "real list"
  m_tmp :: "real list"
  m_scratch :: "real list"
  m_policyHidden :: "real list"
  m_policyPlanes :: "real list"
  m_valueInput :: "real list"
  m_fc1 :: "real list"
  m_logits :: "real list"
  m_sePooled :: "real list"
  m_seHidden :: "real list"
  m_seGates :: "real list"
  m_policyMapped :: "real list"

text \<open>
  \<open>q.memcpy(dst, src, sizeof(T) * n).wait()\<close> inside \<open>try\<close>: the copy of \<open>n\<close> elements,
  or \<open>false\<close> when the runtime throws.
\<close>

definition sycl_memcpy :: "device \<Rightarrow> 'a list \<Rightarrow> 'a list \<Rightarrow> nat \<Rightarrow> bool \<times> 'a list \<times> device" where
  "sycl_memcpy dev dst src n = (case dev_op dev of (ok, dev1) \<Rightarrow>
     if ok then (True, take n src @ drop n dst, dev1) else (False, dst, dev1))"

text \<open>The input convolution.\<close>

definition eval_input :: "SyclNet \<Rightarrow> device \<Rightarrow> workspace \<Rightarrow> workspace" where
  "eval_input net dev ws =
     (let ws1 = ws\<lparr>m_cur := launch_conv_no_bias dev (inputLayer net) (m_in ws) (m_cur ws)\<rparr>
      in ws1\<lparr>m_cur := k_add_bias_relu (m_cur ws1) (rd dev (conv_d_b (inputLayer net)))
                          (conv_outC (inputLayer net))\<rparr>)"

text \<open>The body of the loop over the residual tower, in three parts: the two convolutions,\<close>

definition block_convs :: "device \<Rightarrow> ResidualBlock \<Rightarrow> workspace \<Rightarrow> workspace" where
  "block_convs dev b ws =
     (let ws1 = ws\<lparr>m_tmp := launch_conv_no_bias dev (conv1 b) (m_cur ws) (m_tmp ws)\<rparr>;
          ws2 = ws1\<lparr>m_tmp := k_add_bias_relu (m_tmp ws1) (rd dev (conv_d_b (conv1 b)))
                               (conv_outC (conv1 b))\<rparr>
      in ws2\<lparr>m_scratch := launch_conv_no_bias dev (conv2 b) (m_tmp ws2) (m_scratch ws2)\<rparr>)"

text \<open>the pooling and the two dense layers of the squeeze-excite unit,\<close>

definition block_se_gates :: "device \<Rightarrow> ResidualBlock \<Rightarrow> workspace \<Rightarrow> workspace" where
  "block_se_gates dev b ws =
     (let ws1 = ws\<lparr>m_sePooled := k_se_pool (m_scratch ws) (rd dev (conv_d_b (conv2 b)))
                                    (conv_outC (conv2 b)) (m_sePooled ws)\<rparr>;
          ws2 = ws1\<lparr>m_seHidden := k_se_fc1 (m_sePooled ws1) (rd dev (se_d_w1 (se b)))
                                     (rd dev (se_d_b1 (se b))) (conv_outC (conv2 b))
                                     (se_hidden (se b)) (m_seHidden ws1)\<rparr>
      in ws2\<lparr>m_seGates := k_se_fc2 (m_seHidden ws2) (rd dev (se_d_w2 (se b)))
                               (rd dev (se_d_b2 (se b))) (se_hidden (se b))
                               (2 * conv_outC (conv2 b)) (m_seGates ws2)\<rparr>)"

text \<open>
  and the whole body. \<open>std::swap(net->d_cur, net->d_next)\<close> exchanges the two pointers of
  the net, and with them the buffers that \<open>m_cur\<close> and \<open>m_next\<close> stand for.
\<close>

definition eval_block :: "device \<Rightarrow> ResidualBlock \<Rightarrow> SyclNet \<times> workspace \<Rightarrow> SyclNet \<times> workspace" where
  "eval_block dev b st = (case st of (net, ws) \<Rightarrow>
     let ws1 = block_convs dev b ws;
         ws2 = (if \<not> hasSe b
                then ws1\<lparr>m_next := k_add_residual_relu (m_scratch ws1)
                                      (rd dev (conv_d_b (conv2 b))) (m_cur ws1)
                                      (conv_outC (conv2 b)) (m_next ws1)\<rparr>
                else let ws3 = block_se_gates dev b ws1
                     in ws3\<lparr>m_next := k_se_apply (m_scratch ws3)
                                          (rd dev (conv_d_b (conv2 b))) (m_cur ws3)
                                          (m_seGates ws3) (conv_outC (conv2 b)) (m_next ws3)\<rparr>)
     in (net\<lparr>d_cur := d_next net, d_next := d_cur net\<rparr>,
         ws2\<lparr>m_cur := m_next ws2, m_next := m_cur ws2\<rparr>))"

definition eval_tower :: "device \<Rightarrow> SyclNet \<times> workspace \<Rightarrow> SyclNet \<times> workspace" where
  "eval_tower dev st =
     for_loop (blocks (fst st)) (\<lambda>bi st1. eval_block dev (tower (fst st1) ! nat bi) st1) st"

text \<open>The policy head up to the policy planes, and the map to the policy vector.\<close>

definition eval_policy_planes :: "SyclNet \<Rightarrow> device \<Rightarrow> workspace \<Rightarrow> workspace" where
  "eval_policy_planes net dev ws =
     (let ws1 = ws\<lparr>m_policyHidden :=
                     launch_conv_no_bias dev (policyStem net) (m_cur ws) (m_policyHidden ws)\<rparr>;
          ws2 = ws1\<lparr>m_policyHidden :=
                     k_add_bias_relu (m_policyHidden ws1) (rd dev (conv_d_b (policyStem net)))
                       (conv_outC (policyStem net))\<rparr>;
          ws3 = ws2\<lparr>m_policyPlanes :=
                     launch_conv_no_bias dev (policyOut net) (m_policyHidden ws2)
                       (m_policyPlanes ws2)\<rparr>
      in ws3\<lparr>m_policyPlanes :=
                k_add_bias (m_policyPlanes ws3) (rd dev (conv_d_b (policyOut net)))
                  (conv_outC (policyOut net))\<rparr>)"

definition eval_policy_map :: "SyclNet \<Rightarrow> device \<Rightarrow> workspace \<Rightarrow> workspace" where
  "eval_policy_map net dev ws =
     ws\<lparr>m_policyMapped :=
          k_policy_map (m_policyPlanes ws) (conv_outC (policyOut net) * 64)
            (rd_int dev (d_policyMap net)) (policySize net) (m_policyMapped ws)\<rparr>"

text \<open>The value head up to the three logits.\<close>

definition eval_value_head :: "SyclNet \<Rightarrow> device \<Rightarrow> workspace \<Rightarrow> workspace" where
  "eval_value_head net dev ws =
     (let ws1 = ws\<lparr>m_valueInput :=
                     launch_conv_no_bias dev (valueConv net) (m_cur ws) (m_valueInput ws)\<rparr>;
          ws2 = ws1\<lparr>m_valueInput :=
                     k_add_bias_relu (m_valueInput ws1) (rd dev (conv_d_b (valueConv net)))
                       (conv_outC (valueConv net))\<rparr>;
          ws3 = ws2\<lparr>m_fc1 :=
                     k_dense (m_valueInput ws2) (rd dev (dense_d_w (valueFc1 net)))
                       (rd dev (dense_d_b (valueFc1 net))) (dense_inD (valueFc1 net))
                       (dense_outD (valueFc1 net)) 1 (m_fc1 ws2)\<rparr>
      in ws3\<lparr>m_logits :=
                k_dense (m_fc1 ws3) (rd dev (dense_d_w (valueFc2 net)))
                  (rd dev (dense_d_b (valueFc2 net))) (dense_inD (valueFc2 net))
                  (dense_outD (valueFc2 net)) 0 (m_logits ws3)\<rparr>)"

text \<open>The softmax on the host: \<open>(w, d, l)\<close> from the three logits.\<close>

definition softmax_host :: "real list \<Rightarrow> real \<times> real \<times> real" where
  "softmax_host logitsHost =
     (let m = max (logitsHost ! 0) (max (logitsHost ! 1) (logitsHost ! 2));
          e0 = exp (logitsHost ! 0 - m);
          e1 = exp (logitsHost ! 1 - m);
          e2 = exp (logitsHost ! 2 - m);
          s = e0 + e1 + e2;
          w = (if s > 0 then e0 / s else 0);
          d = (if s > 0 then e1 / s else 0);
          l = (if s > 0 then e2 / s else 0)
      in (w, d, l))"

text \<open>
  \<open>eval_one\<close>. The three host items it writes, \<open>outPolicyHost\<close>, \<open>outWdlHost\<close> and
  \<open>outValue\<close>, are passed in and returned, next to the \<open>bool\<close>, the net with its two
  pointers possibly exchanged, the workspace and the device.
\<close>

type_synonym host_out = "real list \<times> real list \<times> real"

definition eval_one ::
  "SyclNet option \<Rightarrow> real list \<Rightarrow> host_out \<Rightarrow> workspace \<Rightarrow> device
     \<Rightarrow> bool \<times> SyclNet option \<times> host_out \<times> workspace \<times> device" where
  "eval_one h encodedHost outs ws dev =
    (case h of None \<Rightarrow> (False, h, outs, ws, dev) | Some net \<Rightarrow>
     (case outs of (outPolicyHost, outWdlHost, outValue) \<Rightarrow>
      if inputC net \<noteq> 112 then (False, h, outs, ws, dev) else
      case sycl_memcpy dev (m_in ws) encodedHost (total64 (inputC net)) of (ok1, b_in, dev1) \<Rightarrow>
      if \<not> ok1 then (False, h, outs, ws, dev1) else
      let ws1 = eval_input net dev1 (ws\<lparr>m_in := b_in\<rparr>) in
      case eval_tower dev1 (net, ws1) of (net2, ws2) \<Rightarrow>
      let ws3 = eval_policy_map net2 dev1 (eval_policy_planes net2 dev1 ws2) in
      case sycl_memcpy dev1 outPolicyHost (m_policyMapped ws3) (size_t_of (policySize net2)) of
        (ok2, outPolicyHost1, dev2) \<Rightarrow>
      if \<not> ok2 then (False, Some net2, outs, ws3, dev2) else
      let ws4 = eval_value_head net2 dev2 ws3 in
      case sycl_memcpy dev2 [] (m_logits ws4) 3 of (ok3, logitsHost, dev3) \<Rightarrow>
      if \<not> ok3 then (False, Some net2, (outPolicyHost1, outWdlHost, outValue), ws4, dev3) else
      case softmax_host logitsHost of (w, d, l) \<Rightarrow>
      (True, Some net2, (outPolicyHost1, outWdlHost[0 := w, 1 := d, 2 := l], w - l), ws4,
       dev3)))"

subsection \<open>JNI entry points\<close>

text \<open>
  A Java array reference is an option, \<open>None\<close> being \<open>null\<close>; the handle is an option as
  well, \<open>None\<close> being 0. Each entry point returns its result and the state it may change.
\<close>

definition SetFloatArrayRegion :: "real list \<Rightarrow> nat \<Rightarrow> nat \<Rightarrow> real list \<Rightarrow> real list" where
  "SetFloatArrayRegion arr start len buf = take start arr @ take len buf @ drop (start + len) arr"

text \<open>\<open>new_ok\<close> tells whether \<open>NewLongArray\<close> returns an array.\<close>

definition nativeGetInfo :: "SyclNet option \<Rightarrow> bool \<Rightarrow> int list option" where
  "nativeGetInfo handle new_ok = (case handle of
       None \<Rightarrow> None
     | Some net \<Rightarrow>
         let vals = [inputC net, trunkC net, blocks net, policyC net, valueC net,
                     policySize net, paramCount net]
         in if \<not> new_ok then None else Some vals)"

definition nativePredict ::
  "SyclNet option \<Rightarrow> real list option \<Rightarrow> real list option \<Rightarrow> real list option
     \<Rightarrow> workspace \<Rightarrow> device
     \<Rightarrow> real \<times> SyclNet option \<times> real list option \<times> real list option \<times> workspace \<times> device" where
  "nativePredict handle jencoded joutPolicy joutWdl ws dev =
    (if handle = None then (0, handle, joutPolicy, joutWdl, ws, dev) else
     if jencoded = None \<or> joutPolicy = None \<or> joutWdl = None
     then (0, handle, joutPolicy, joutWdl, ws, dev) else
     let net = the handle;
         encLen = int (length (the jencoded));
         polLen = int (length (the joutPolicy));
         wdlLen = int (length (the joutWdl)) in
     if encLen \<noteq> inputC net * 64 then (0, handle, joutPolicy, joutWdl, ws, dev) else
     if polLen \<noteq> policySize net then (0, handle, joutPolicy, joutWdl, ws, dev) else
     if wdlLen \<noteq> 3 then (0, handle, joutPolicy, joutWdl, ws, dev) else
     let encoded = take (nat encLen) (the jencoded);
         policy = replicate (nat polLen) 0;
         wdl = [0, 0, 0];
         val = 0 in
     case eval_one handle encoded (policy, wdl, val) ws dev of
       (ok, handle1, (policy1, wdl1, val1), ws1, dev1) \<Rightarrow>
     if \<not> ok then (0, handle1, joutPolicy, joutWdl, ws1, dev1) else
     (val1, handle1,
      Some (SetFloatArrayRegion (the joutPolicy) 0 (nat polLen) policy1),
      Some (SetFloatArrayRegion (the joutWdl) 0 3 wdl1), ws1, dev1))"

subsection \<open>Notions used in the statements\<close>

text \<open>
  \<open>eval_one\<close> makes three blocking copies: the input to the device, the policy vector to
  the host, the logits to the host. No kernel launch and no other runtime call in it can
  fail, so the next three entries of the script are the outcomes of these copies.
\<close>

definition copies_succeed :: "device \<Rightarrow> bool" where
  "copies_succeed dev = list_all id (take 3 (script dev))"


text \<open>The handle that \<open>backend_nativeCreate\<close> passes to Java: the net, or 0.\<close>

definition handle_of :: "create_result \<Rightarrow> SyclNet option" where
  "handle_of r = (case r of Handle net \<Rightarrow> Some net | Null \<Rightarrow> None | Throws \<Rightarrow> None)"

text \<open>The \<open>j\<close>-th of the 32-bit header fields that follow the magic tag and the version.\<close>

definition header_field :: "stream \<Rightarrow> nat \<Rightarrow> int" where
  "header_field f j = sint (le32 (take 4 (drop (8 + 4 * j) f)))"

subsection \<open>Concrete inputs\<close>

text \<open>A device on which nothing has been allocated and no runtime call fails.\<close>

definition dev0 :: device where
  "dev0 = \<lparr>next_ptr = 1, allocs = [], frees = [], script = [],
            fmem = (\<lambda>_. []), imem = (\<lambda>_. [])\<rparr>"

definition ws0 :: workspace where
  "ws0 = \<lparr>m_in = [], m_cur = [], m_next = [], m_tmp = [], m_scratch = [],
           m_policyHidden = [], m_policyPlanes = [], m_valueInput = [], m_fc1 = [],
           m_logits = [], m_sePooled = [], m_seHidden = [], m_seGates = [],
           m_policyMapped = []\<rparr>"


text \<open>
  The fields of a net that \<open>create_net\<close> copies from the header of the file, in the order
  of the header.
\<close>

definition net_header :: "SyclNet \<Rightarrow> int list" where
  "net_header net = [inputC net, trunkC net, blocks net, policyC net, valueC net,
                     valueHidden net, policyMapLen net, policySize net]"

text \<open>
  A residual block that the loop of \<open>create_net\<close> has loaded: both convolutions have their
  weights and biases on the device. A block as \<open>tower.resize\<close> makes it has null pointers.
\<close>

definition block_loaded :: "ResidualBlock \<Rightarrow> bool" where
  "block_loaded b \<longleftrightarrow>
     conv_d_w (conv1 b) \<noteq> None \<and> conv_d_b (conv1 b) \<noteq> None
     \<and> conv_d_w (conv2 b) \<noteq> None \<and> conv_d_b (conv2 b) \<noteq> None"

subsection \<open>Concrete weights files\<close>



text \<open>
  The same with 112 input planes and a policy map of the two entries 0 and -1.
\<close>

definition file_112 :: stream where
  "file_112 =
     [76, 67, 48, 74, 1, 0, 0, 0, 112, 0, 0, 0, 1, 0, 0, 0, 1, 0, 0, 0, 1, 0, 0, 0, 1, 0, 0, 0,
      1, 0, 0, 0, 2, 0, 0, 0, 3, 0, 0, 0, 112, 0, 0, 0, 1, 0, 0, 0, 1, 0, 0, 0, 112, 0, 0, 0, 0,
      0, 128, 63, 0, 0, 128, 63, 0, 0, 128, 63, 0, 0, 128, 63, 0, 0, 128, 63, 0, 0, 128, 63, 0,
      0, 128, 63, 0, 0, 128, 63, 0, 0, 128, 63, 0, 0, 128, 63, 0, 0, 128, 63, 0, 0, 128, 63, 0,
      0, 128, 63, 0, 0, 128, 63, 0, 0, 128, 63, 0, 0, 128, 63, 0, 0, 128, 63, 0, 0, 128, 63, 0,
      0, 128, 63, 0, 0, 128, 63, 0, 0, 128, 63, 0, 0, 128, 63, 0, 0, 128, 63, 0, 0, 128, 63, 0,
      0, 128, 63, 0, 0, 128, 63, 0, 0, 128, 63, 0, 0, 128, 63, 0, 0, 128, 63, 0, 0, 128, 63, 0,
      0, 128, 63, 0, 0, 128, 63, 0, 0, 128, 63, 0, 0, 128, 63, 0, 0, 128, 63, 0, 0, 128, 63, 0,
      0, 128, 63, 0, 0, 128, 63, 0, 0, 128, 63, 0, 0, 128, 63, 0, 0, 128, 63, 0, 0, 128, 63, 0,
      0, 128, 63, 0, 0, 128, 63, 0, 0, 128, 63, 0, 0, 128, 63, 0, 0, 128, 63, 0, 0, 128, 63, 0,
      0, 128, 63, 0, 0, 128, 63, 0, 0, 128, 63, 0, 0, 128, 63, 0, 0, 128, 63, 0, 0, 128, 63, 0,
      0, 128, 63, 0, 0, 128, 63, 0, 0, 128, 63, 0, 0, 128, 63, 0, 0, 128, 63, 0, 0, 128, 63, 0,
      0, 128, 63, 0, 0, 128, 63, 0, 0, 128, 63, 0, 0, 128, 63, 0, 0, 128, 63, 0, 0, 128, 63, 0,
      0, 128, 63, 0, 0, 128, 63, 0, 0, 128, 63, 0, 0, 128, 63, 0, 0, 128, 63, 0, 0, 128, 63, 0,
      0, 128, 63, 0, 0, 128, 63, 0, 0, 128, 63, 0, 0, 128, 63, 0, 0, 128, 63, 0, 0, 128, 63, 0,
      0, 128, 63, 0, 0, 128, 63, 0, 0, 128, 63, 0, 0, 128, 63, 0, 0, 128, 63, 0, 0, 128, 63, 0,
      0, 128, 63, 0, 0, 128, 63, 0, 0, 128, 63, 0, 0, 128, 63, 0, 0, 128, 63, 0, 0, 128, 63, 0,
      0, 128, 63, 0, 0, 128, 63, 0, 0, 128, 63, 0, 0, 128, 63, 0, 0, 128, 63, 0, 0, 128, 63, 0,
      0, 128, 63, 0, 0, 128, 63, 0, 0, 128, 63, 0, 0, 128, 63, 0, 0, 128, 63, 0, 0, 128, 63, 0,
      0, 128, 63, 0, 0, 128, 63, 0, 0, 128, 63, 0, 0, 128, 63, 0, 0, 128, 63, 0, 0, 128, 63, 0,
      0, 128, 63, 0, 0, 128, 63, 0, 0, 128, 63, 0, 0, 128, 63, 1, 0, 0, 0, 0, 0, 0, 0, 1, 0, 0,
      0, 1, 0, 0, 0, 1, 0, 0, 0, 1, 0, 0, 0, 0, 0, 128, 63, 1, 0, 0, 0, 0, 0, 0, 0, 1, 0, 0, 0,
      1, 0, 0, 0, 1, 0, 0, 0, 1, 0, 0, 0, 0, 0, 128, 63, 1, 0, 0, 0, 0, 0, 0, 0, 0, 1, 0, 0, 0,
      1, 0, 0, 0, 1, 0, 0, 0, 1, 0, 0, 0, 0, 0, 128, 63, 1, 0, 0, 0, 0, 0, 0, 0, 1, 0, 0, 0, 1,
      0, 0, 0, 1, 0, 0, 0, 1, 0, 0, 0, 0, 0, 128, 63, 1, 0, 0, 0, 0, 0, 0, 0, 1, 0, 0, 0, 1, 0,
      0, 0, 1, 0, 0, 0, 1, 0, 0, 0, 0, 0, 128, 63, 1, 0, 0, 0, 0, 0, 0, 0, 1, 0, 0, 0, 1, 0, 0,
      0, 1, 0, 0, 0, 0, 0, 0, 0, 1, 0, 0, 0, 0, 0, 0, 0, 1, 0, 0, 0, 3, 0, 0, 0, 3, 0, 0, 0, 0,
      0, 0, 0, 0, 0, 0, 0, 0, 0, 0, 0, 3, 0, 0, 0, 0, 0, 0, 0, 0, 0, 0, 0, 0, 0, 0, 0, 2, 0, 0,
      0, 0, 0, 0, 0, 255, 255, 255, 255]"

text \<open>
  The net that \<open>create_net\<close> builds from \<open>file_112\<close> on the device \<open>dev0\<close>.
\<close>

definition net112 :: SyclNet where
  "net112 =
     \<lparr>inputC = 112, trunkC = 1, blocks = 1, policyC = 1, valueC = 1, valueHidden = 1,
      policySize = 2, paramCount = 131,
      inputLayer = \<lparr>conv_inC = 112, conv_outC = 1, conv_k = 1, conv_d_w = Some 1,
                     conv_d_b = Some 2, conv_params = 113\<rparr>,
      tower = [\<lparr>conv1 = \<lparr>conv_inC = 1, conv_outC = 1, conv_k = 1, conv_d_w = Some 3,
                          conv_d_b = Some 4, conv_params = 2\<rparr>,
                conv2 = \<lparr>conv_inC = 1, conv_outC = 1, conv_k = 1, conv_d_w = Some 5,
                          conv_d_b = Some 6, conv_params = 2\<rparr>,
                hasSe = False,
                se = SeUnit0\<rparr>],
      policyStem = \<lparr>conv_inC = 1, conv_outC = 1, conv_k = 1, conv_d_w = Some 7,
                     conv_d_b = Some 8, conv_params = 2\<rparr>,
      policyOut = \<lparr>conv_inC = 1, conv_outC = 1, conv_k = 1, conv_d_w = Some 9,
                    conv_d_b = Some 10, conv_params = 2\<rparr>,
      valueConv = \<lparr>conv_inC = 1, conv_outC = 1, conv_k = 1, conv_d_w = Some 11,
                    conv_d_b = Some 12, conv_params = 2\<rparr>,
      valueFc1 = \<lparr>dense_inD = 1, dense_outD = 1, dense_d_w = Some 13, dense_d_b = Some 14,
                   dense_params = 2\<rparr>,
      valueFc2 = \<lparr>dense_inD = 1, dense_outD = 3, dense_d_w = Some 15, dense_d_b = Some 16,
                   dense_params = 6\<rparr>,
      d_policyMap = Some 17, policyMapLen = 2, d_policyMapped = Some 31, d_in = Some 18,
      d_cur = Some 19, d_next = Some 20, d_tmp = Some 21, d_scratch = Some 22,
      d_policyHidden = Some 23, d_policyPlanes = Some 24, d_valueInput = Some 25,
      d_fc1 = Some 26, d_logits = Some 27, d_sePooled = Some 28, d_seHidden = Some 29,
      d_seGates = Some 30, seMaxHidden = 0\<rparr>"

text \<open>
  A squeeze-excite record: the presence flag 1, \<open>hidden\<close> 2, \<open>channels\<close> 1, and the four
  arrays \<open>w1\<close>, \<open>b1\<close>, \<open>w2\<close>, \<open>b2\<close> with one element each, where the declared
  dimensions ask for 2, 2, 4 and 2 elements.
\<close>

definition se_record_wrong :: stream where
  "se_record_wrong =
     [1, 2, 0, 0, 0, 1, 0, 0, 0, 1, 0, 0, 0, 0, 0, 0, 0, 1, 0, 0, 0, 0, 0, 0, 0, 1, 0, 0, 0, 0,
      0, 0, 0, 1, 0, 0, 0, 0, 0, 0, 0]"

text \<open>
  \<open>file_small\<close> with that squeeze-excite record in its residual block.
\<close>

definition file_se_wrong :: stream where
  "file_se_wrong =
     [76, 67, 48, 74, 1, 0, 0, 0, 1, 0, 0, 0, 1, 0, 0, 0, 1, 0, 0, 0, 1, 0, 0, 0, 1, 0, 0, 0, 1,
      0, 0, 0, 1, 0, 0, 0, 3, 0, 0, 0, 1, 0, 0, 0, 1, 0, 0, 0, 1, 0, 0, 0, 1, 0, 0, 0, 0, 0,
      128, 63, 1, 0, 0, 0, 0, 0, 0, 0, 1, 0, 0, 0, 1, 0, 0, 0, 1, 0, 0, 0, 1, 0, 0, 0, 0, 0,
      128, 63, 1, 0, 0, 0, 0, 0, 0, 0, 1, 0, 0, 0, 1, 0, 0, 0, 1, 0, 0, 0, 1, 0, 0, 0, 0, 0,
      128, 63, 1, 0, 0, 0, 0, 0, 0, 0, 1, 2, 0, 0, 0, 1, 0, 0, 0, 1, 0, 0, 0, 0, 0, 0, 0, 1, 0,
      0, 0, 0, 0, 0, 0, 1, 0, 0, 0, 0, 0, 0, 0, 1, 0, 0, 0, 0, 0, 0, 0, 1, 0, 0, 0, 1, 0, 0, 0,
      1, 0, 0, 0, 1, 0, 0, 0, 0, 0, 128, 63, 1, 0, 0, 0, 0, 0, 0, 0, 1, 0, 0, 0, 1, 0, 0, 0, 1,
      0, 0, 0, 1, 0, 0, 0, 0, 0, 128, 63, 1, 0, 0, 0, 0, 0, 0, 0, 1, 0, 0, 0, 1, 0, 0, 0, 1, 0,
      0, 0, 1, 0, 0, 0, 0, 0, 128, 63, 1, 0, 0, 0, 0, 0, 0, 0, 1, 0, 0, 0, 1, 0, 0, 0, 1, 0, 0,
      0, 0, 0, 0, 0, 1, 0, 0, 0, 0, 0, 0, 0, 1, 0, 0, 0, 3, 0, 0, 0, 3, 0, 0, 0, 0, 0, 0, 0, 0,
      0, 0, 0, 0, 0, 0, 0, 3, 0, 0, 0, 0, 0, 0, 0, 0, 0, 0, 0, 0, 0, 0, 0, 1, 0, 0, 0, 0, 0, 0,
      0]"

text \<open>
  The net that \<open>create_net\<close> builds from \<open>file_se_wrong\<close> on the device \<open>dev0\<close>.
\<close>

definition net_se_wrong :: SyclNet where
  "net_se_wrong =
     \<lparr>inputC = 1, trunkC = 1, blocks = 1, policyC = 1, valueC = 1, valueHidden = 1,
      policySize = 1, paramCount = 24,
      inputLayer = \<lparr>conv_inC = 1, conv_outC = 1, conv_k = 1, conv_d_w = Some 1,
                     conv_d_b = Some 2, conv_params = 2\<rparr>,
      tower = [\<lparr>conv1 = \<lparr>conv_inC = 1, conv_outC = 1, conv_k = 1, conv_d_w = Some 3,
                          conv_d_b = Some 4, conv_params = 2\<rparr>,
                conv2 = \<lparr>conv_inC = 1, conv_outC = 1, conv_k = 1, conv_d_w = Some 5,
                          conv_d_b = Some 6, conv_params = 2\<rparr>,
                hasSe = True,
                se = \<lparr>se_channels = 1, se_hidden = 2, se_d_w1 = Some 7, se_d_b1 = Some 8,
                      se_d_w2 = Some 9, se_d_b2 = Some 10, se_params = 4\<rparr>\<rparr>],
      policyStem = \<lparr>conv_inC = 1, conv_outC = 1, conv_k = 1, conv_d_w = Some 11,
                     conv_d_b = Some 12, conv_params = 2\<rparr>,
      policyOut = \<lparr>conv_inC = 1, conv_outC = 1, conv_k = 1, conv_d_w = Some 13,
                    conv_d_b = Some 14, conv_params = 2\<rparr>,
      valueConv = \<lparr>conv_inC = 1, conv_outC = 1, conv_k = 1, conv_d_w = Some 15,
                    conv_d_b = Some 16, conv_params = 2\<rparr>,
      valueFc1 = \<lparr>dense_inD = 1, dense_outD = 1, dense_d_w = Some 17, dense_d_b = Some 18,
                   dense_params = 2\<rparr>,
      valueFc2 = \<lparr>dense_inD = 1, dense_outD = 3, dense_d_w = Some 19, dense_d_b = Some 20,
                   dense_params = 6\<rparr>,
      d_policyMap = Some 21, policyMapLen = 1, d_policyMapped = Some 35, d_in = Some 22,
      d_cur = Some 23, d_next = Some 24, d_tmp = Some 25, d_scratch = Some 26,
      d_policyHidden = Some 27, d_policyPlanes = Some 28, d_valueInput = Some 29,
      d_fc1 = Some 30, d_logits = Some 31, d_sePooled = Some 32, d_seHidden = Some 33,
      d_seGates = Some 34, seMaxHidden = 2\<rparr>"

text \<open>
  A file without residual blocks whose header and policy map both give the length -1.
\<close>

definition file_neg_map :: stream where
  "file_neg_map =
     [76, 67, 48, 74, 1, 0, 0, 0, 1, 0, 0, 0, 1, 0, 0, 0, 0, 0, 0, 0, 1, 0, 0, 0, 1, 0, 0, 0, 1,
      0, 0, 0, 255, 255, 255, 255, 3, 0, 0, 0, 1, 0, 0, 0, 1, 0, 0, 0, 1, 0, 0, 0, 1, 0, 0, 0,
      0, 0, 128, 63, 1, 0, 0, 0, 0, 0, 0, 0, 1, 0, 0, 0, 1, 0, 0, 0, 1, 0, 0, 0, 1, 0, 0, 0, 0,
      0, 128, 63, 1, 0, 0, 0, 0, 0, 0, 0, 1, 0, 0, 0, 1, 0, 0, 0, 1, 0, 0, 0, 1, 0, 0, 0, 0, 0,
      128, 63, 1, 0, 0, 0, 0, 0, 0, 0, 1, 0, 0, 0, 1, 0, 0, 0, 1, 0, 0, 0, 1, 0, 0, 0, 0, 0,
      128, 63, 1, 0, 0, 0, 0, 0, 0, 0, 1, 0, 0, 0, 1, 0, 0, 0, 1, 0, 0, 0, 0, 0, 0, 0, 1, 0, 0,
      0, 0, 0, 0, 0, 1, 0, 0, 0, 3, 0, 0, 0, 3, 0, 0, 0, 0, 0, 0, 0, 0, 0, 0, 0, 0, 0, 0, 0, 3,
      0, 0, 0, 0, 0, 0, 0, 0, 0, 0, 0, 0, 0, 0, 0, 255, 255, 255, 255]"




text \<open>
  The softmax of \<open>eval_one\<close> once more, with the rounding of float arithmetic made
  explicit: \<open>rsub\<close>, \<open>radd\<close> and \<open>rdiv\<close> round the exact result of a subtraction, an
  addition and a division to the float that the operation returns, and \<open>fexp\<close> is
  \<open>std::exp\<close> on floats. With no rounding and the real exponential it is \<open>softmax_host\<close>.
\<close>

definition softmax_host_fl ::
  "(real \<Rightarrow> real) \<Rightarrow> (real \<Rightarrow> real) \<Rightarrow> (real \<Rightarrow> real) \<Rightarrow> (real \<Rightarrow> real) \<Rightarrow> real list
     \<Rightarrow> real \<times> real \<times> real" where
  "softmax_host_fl rsub radd rdiv fexp logitsHost =
     (let m = max (logitsHost ! 0) (max (logitsHost ! 1) (logitsHost ! 2));
          e0 = fexp (rsub (logitsHost ! 0 - m));
          e1 = fexp (rsub (logitsHost ! 1 - m));
          e2 = fexp (rsub (logitsHost ! 2 - m));
          s = radd (radd (e0 + e1) + e2);
          w = (if s > 0 then rdiv (e0 / s) else 0);
          d = (if s > 0 then rdiv (e1 / s) else 0);
          l = (if s > 0 then rdiv (e2 / s) else 0)
      in (w, d, l))"

subsection \<open>Ownership of device buffers\<close>

text \<open>
  The addresses that \<open>destroy_net\<close> passes to \<open>sycl::free\<close>, as multisets: those of a
  layer, of a block (the squeeze-excite unit only when \<open>hasSe\<close> is set) and of a net.
\<close>

definition ptr_mset :: "ptr \<Rightarrow> nat multiset" where
  "ptr_mset p = (case p of None \<Rightarrow> {#} | Some a \<Rightarrow> {#a#})"

definition owned_conv :: "ConvLayer \<Rightarrow> nat multiset" where
  "owned_conv c = ptr_mset (conv_d_w c) + ptr_mset (conv_d_b c)"

definition owned_dense :: "DenseLayer \<Rightarrow> nat multiset" where
  "owned_dense d = ptr_mset (dense_d_w d) + ptr_mset (dense_d_b d)"

definition owned_se :: "SeUnit \<Rightarrow> nat multiset" where
  "owned_se s = ptr_mset (se_d_w1 s) + ptr_mset (se_d_b1 s) + ptr_mset (se_d_w2 s)
                + ptr_mset (se_d_b2 s)"

definition owned_block :: "ResidualBlock \<Rightarrow> nat multiset" where
  "owned_block b = owned_conv (conv1 b) + owned_conv (conv2 b)
                   + (if hasSe b then owned_se (se b) else {#})"

definition owned_net :: "SyclNet \<Rightarrow> nat multiset" where
  "owned_net net =
     owned_conv (inputLayer net) + sum_list (map owned_block (tower net))
     + owned_conv (policyStem net) + owned_conv (policyOut net) + owned_conv (valueConv net)
     + owned_dense (valueFc1 net) + owned_dense (valueFc2 net)
     + sum_list (map ptr_mset
         [d_policyMap net, d_policyMapped net, d_in net, d_cur net, d_next net, d_tmp net,
          d_scratch net, d_policyHidden net, d_policyPlanes net, d_valueInput net, d_fc1 net,
          d_logits net, d_sePooled net, d_seHidden net, d_seGates net])"

text \<open>The addresses ever allocated on a device.\<close>

definition allocated :: "device \<Rightarrow> nat multiset" where
  "allocated dev = mset (map fst (allocs dev))"

section \<open>Properties\<close>

subsection \<open>Auxiliary facts\<close>

lemma parallel_for_nth: "i < n \<Longrightarrow> parallel_for n item out ! i = item i"
  by (simp add: parallel_for_def nth_append)



lemma total64_nat: "0 \<le> c \<Longrightarrow> total64 c = nat c * 64"
  by (simp add: total64_def)

text \<open>\<open>eval_one\<close> returns \<open>true\<close> exactly when the net has 112 input planes and none of
  its three copies fails.\<close>

lemma eval_one_ok_iff:
  "fst (eval_one (Some net) enc outs ws dev) \<longleftrightarrow> inputC net = 112 \<and> copies_succeed dev"
  by (cases "script dev"; cases "tl (script dev)"; cases "tl (tl (script dev))")
     (auto simp: eval_one_def sycl_memcpy_def dev_op_def copies_succeed_def Let_def
           split: prod.splits)

text \<open>The kernels read the device only through the contents of its buffers.\<close>

lemma rd_script [simp]: "rd (dev\<lparr>script := s\<rparr>) p = rd dev p"
  by (cases p) (simp_all add: rd_def)

lemma rd_int_script [simp]: "rd_int (dev\<lparr>script := s\<rparr>) p = rd_int dev p"
  by (cases p) (simp_all add: rd_int_def)

lemma launch_conv_script [simp]:
  "launch_conv_no_bias (dev\<lparr>script := s\<rparr>) layer input out = launch_conv_no_bias dev layer input out"
  by (simp add: launch_conv_no_bias_def)

lemma eval_input_script [simp]: "eval_input net (dev\<lparr>script := s\<rparr>) ws = eval_input net dev ws"
  by (simp add: eval_input_def)

lemma block_convs_script [simp]: "block_convs (dev\<lparr>script := s\<rparr>) b ws = block_convs dev b ws"
  by (simp add: block_convs_def)

lemma block_se_gates_script [simp]:
  "block_se_gates (dev\<lparr>script := s\<rparr>) b ws = block_se_gates dev b ws"
  by (simp add: block_se_gates_def)

lemma eval_block_script [simp]: "eval_block (dev\<lparr>script := s\<rparr>) b st = eval_block dev b st"
  by (cases st) (simp add: eval_block_def Let_def)

lemma eval_tower_script [simp]: "eval_tower (dev\<lparr>script := s\<rparr>) st = eval_tower dev st"
  by (simp add: eval_tower_def)

lemma eval_policy_planes_script [simp]:
  "eval_policy_planes net (dev\<lparr>script := s\<rparr>) ws = eval_policy_planes net dev ws"
  by (simp add: eval_policy_planes_def)

lemma eval_policy_map_script [simp]:
  "eval_policy_map net (dev\<lparr>script := s\<rparr>) ws = eval_policy_map net dev ws"
  by (simp add: eval_policy_map_def)

lemma eval_value_head_script [simp]:
  "eval_value_head net (dev\<lparr>script := s\<rparr>) ws = eval_value_head net dev ws"
  by (simp add: eval_value_head_def)


lemma m_policyMapped_value_head [simp]:
  "m_policyMapped (eval_value_head net dev ws) = m_policyMapped ws"
  by (simp add: eval_value_head_def Let_def)










subsection \<open>What the loader leaves in the net\<close>

text \<open>
  The header of a net: the fields that \<open>create_net\<close> copies from the file header.
  No later stage of the load writes them.
\<close>

lemma read_bytes_True:
  "read_bytes f n = (True, bs, f1) \<Longrightarrow> bs = take n f \<and> f1 = drop n f \<and> n \<le> length f"
  by (auto simp: read_bytes_def split: if_splits)

lemma read_i32_True:
  "read_i32 f = (True, v, f1) \<Longrightarrow> v = sint (le32 (take 4 f)) \<and> f1 = drop 4 f \<and> 4 \<le> length f"
  by (auto simp: read_i32_def split: prod.splits if_splits dest: read_bytes_True)

lemma read_i32_range: "read_i32 f = (True, v, f1) \<Longrightarrow> - (2 ^ 31) \<le> v \<and> v < 2 ^ 31"
proof -
  assume "read_i32 f = (True, v, f1)"
  then have v: "v = sint (le32 (take 4 f))"
    by (simp add: read_i32_True)
  have "- (2 ^ (LENGTH(32) - 1)) \<le> sint (le32 (take 4 f))"
    by (rule sint_ge)
  moreover have "sint (le32 (take 4 f)) < 2 ^ (LENGTH(32) - 1)"
    by (rule sint_lt)
  ultimately show ?thesis
    by (simp add: v)
qed

lemma read_i32_eq:
  "read_i32 f = (if 4 \<le> length f then (True, sint (le32 (take 4 f)), drop 4 f)
                 else (False, 0, []))"
  by (simp add: read_i32_def read_bytes_def)

lemma read_i32_step:
  "(case read_i32 f of (r, v, f') \<Rightarrow> if \<not> r then (False, h0, f') else K v f') = (True, hdr, g)
     \<Longrightarrow> 4 \<le> length f \<and> K (sint (le32 (take 4 f))) (drop 4 f) = (True, hdr, g)"
  by (auto simp: read_i32_eq split: if_splits)

lemma read_header_True:
  assumes "read_header f = (True, hdr, f1)"
  shows "h_inputC hdr = sint (le32 (take 4 f))"
    and "h_trunkC hdr = sint (le32 (take 4 (drop 4 f)))"
    and "h_blocks hdr = sint (le32 (take 4 (drop 8 f)))"
    and "h_policyC hdr = sint (le32 (take 4 (drop 12 f)))"
    and "h_valueC hdr = sint (le32 (take 4 (drop 16 f)))"
    and "h_valueHidden hdr = sint (le32 (take 4 (drop 20 f)))"
    and "h_policyMapLen hdr = sint (le32 (take 4 (drop 24 f)))"
    and "h_wdlOutputs hdr = sint (le32 (take 4 (drop 28 f)))"
proof -
  have "hdr = \<lparr>h_inputC = sint (le32 (take 4 f)),
      h_trunkC = sint (le32 (take 4 (drop 4 f))), h_blocks = sint (le32 (take 4 (drop 8 f))),
      h_policyC = sint (le32 (take 4 (drop 12 f))), h_valueC = sint (le32 (take 4 (drop 16 f))),
      h_valueHidden = sint (le32 (take 4 (drop 20 f))),
      h_policyMapLen = sint (le32 (take 4 (drop 24 f))),
      h_wdlOutputs = sint (le32 (take 4 (drop 28 f)))\<rparr>"
    using assms unfolding read_header_def Let_def
    apply -
    apply (drule read_i32_step, elim conjE)+
    apply simp
    done
  then show "h_inputC hdr = sint (le32 (take 4 f))"
    and "h_trunkC hdr = sint (le32 (take 4 (drop 4 f)))"
    and "h_blocks hdr = sint (le32 (take 4 (drop 8 f)))"
    and "h_policyC hdr = sint (le32 (take 4 (drop 12 f)))"
    and "h_valueC hdr = sint (le32 (take 4 (drop 16 f)))"
    and "h_valueHidden hdr = sint (le32 (take 4 (drop 20 f)))"
    and "h_policyMapLen hdr = sint (le32 (take 4 (drop 24 f)))"
    and "h_wdlOutputs hdr = sint (le32 (take 4 (drop 28 f)))"
    by simp_all
qed

lemma load_conv_fields:
  "load_conv f out dev = (True, f1, out1, dev1) \<Longrightarrow>
     0 < conv_inC out1 \<and> 0 < conv_outC out1 \<and> (conv_k out1 = 1 \<or> conv_k out1 = 3)"
  by (auto simp: load_conv_def Let_def split: prod.splits if_splits)

lemma load_dense_fields:
  "load_dense f out expectedOut dev = (True, f1, out1, dev1) \<Longrightarrow>
     0 < dense_inD out1 \<and> dense_outD out1 = expectedOut"
  by (auto simp: load_dense_def Let_def split: prod.splits if_splits)

text \<open>
  No stage of the load after the header writes a header field of the net; the loop over the
  blocks keeps the length of the tower.
\<close>

lemma load_block_frame:
  "load_block i f net mh dev = (ok, f1, net1, mh1, dev1) \<Longrightarrow>
     net_header net1 = net_header net \<and> length (tower net1) = length (tower net)
     \<and> policyOut net1 = policyOut net"
  by (auto simp: load_block_def Let_def net_header_def split: prod.splits if_splits)

lemma load_blocks_frame:
  "load_blocks n i f net mh dev = (ok, f1, net1, mh1, dev1) \<Longrightarrow>
     net_header net1 = net_header net \<and> length (tower net1) = length (tower net)
     \<and> policyOut net1 = policyOut net"
proof (induction n arbitrary: i f net mh dev)
  case 0
  then show ?case by simp
next
  case (Suc n)
  obtain ok' f' net' mh' dev' where b: "load_block i f net mh dev = (ok', f', net', mh', dev')"
    by (metis prod_cases5)
  note fr = load_block_frame [OF b]
  show ?case
  proof (cases ok')
    case True
    with Suc.prems b have "load_blocks n (Suc i) f' net' mh' dev' = (ok, f1, net1, mh1, dev1)"
      by simp
    from Suc.IH [OF this] fr show ?thesis
      by simp
  next
    case False
    with Suc.prems b have "net1 = net'"
      by simp
    with fr show ?thesis
      by simp
  qed
qed

lemma load_layers_Done:
  assumes "load_layers hdr f net dev = (Done, f1, net1, dev1)"
  shows "net_header net1 = net_header net"
    and "0 \<le> h_blocks hdr"
    and "length (tower net1) = nat (h_blocks hdr)"
    and "conv_outC (policyOut net1) = h_policyC hdr"
    and "dense_outD (valueFc2 net1) = 3"
  using assms
  by (auto simp: load_layers_def Let_def net_header_def
        split: prod.splits if_splits dest!: load_blocks_frame load_dense_fields)

lemma load_policy_map_Done:
  assumes "load_policy_map hdr f net dev = (Done, f1, net1, dev1)"
  shows "net_header net1 = net_header net"
    and "tower net1 = tower net"
    and "policyOut net1 = policyOut net"
    and "valueFc2 net1 = valueFc2 net"
    and "0 \<le> h_policyMapLen hdr"
  using assms
  by (auto simp: load_policy_map_def Let_def net_header_def split: prod.splits if_splits)

lemma fold_alloc_ws_frame:
  assumes "\<forall>(upd, n) \<in> set reqs. \<forall>p net. g (upd p net) = g net"
  shows "g (fst (snd (fold alloc_ws reqs st))) = g (fst (snd st))"
  using assms
proof (induction reqs arbitrary: st)
  case Nil
  then show ?case by simp
next
  case (Cons r reqs)
  obtain upd n where r: "r = (upd, n)"
    by (cases r)
  with Cons.prems have u: "g (upd p net) = g net" for p net
    by simp
  have "g (fst (snd (alloc_ws r st))) = g (fst (snd st))"
    by (cases st) (auto simp: alloc_ws_def r u split: prod.splits)
  moreover from Cons.prems have "\<forall>(upd, n) \<in> set reqs. \<forall>p net. g (upd p net) = g net"
    by simp
  ultimately show ?case
    using Cons.IH [of "alloc_ws r st"] by simp
qed

lemma alloc_workspace_frame:
  assumes "alloc_workspace hdr net dev = (ok, net1, dev1)"
  shows "net_header net1 = net_header net"
    and "tower net1 = tower net"
    and "policyOut net1 = policyOut net"
    and "valueFc2 net1 = valueFc2 net"
    and "paramCount net1 = paramCount net"
proof -
  have n: "net1 = fst (snd (alloc_workspace hdr net dev))"
    by (simp add: assms)
  show "net_header net1 = net_header net"
    unfolding n alloc_workspace_def
    by (subst fold_alloc_ws_frame) (simp_all add: net_header_def)
  show "tower net1 = tower net"
    unfolding n alloc_workspace_def
    by (subst fold_alloc_ws_frame) simp_all
  show "policyOut net1 = policyOut net"
    unfolding n alloc_workspace_def
    by (subst fold_alloc_ws_frame) simp_all
  show "valueFc2 net1 = valueFc2 net"
    unfolding n alloc_workspace_def
    by (subst fold_alloc_ws_frame) simp_all
  show "paramCount net1 = paramCount net"
    unfolding n alloc_workspace_def
    by (subst fold_alloc_ws_frame) simp_all
qed

lemma load_model_Done:
  assumes "load_model hdr f net dev = (Done, net1, dev1)"
  shows "net_header net1 = net_header net"
    and "0 \<le> h_blocks hdr"
    and "length (tower net1) = nat (h_blocks hdr)"
    and "conv_outC (policyOut net1) = h_policyC hdr"
    and "dense_outD (valueFc2 net1) = 3"
    and "0 \<le> h_policyMapLen hdr"
proof -
  from assms obtain fa neta deva fb netb devb
    where a: "load_layers hdr f net dev = (Done, fa, neta, deva)"
      and b: "load_policy_map hdr fa neta deva = (Done, fb, netb, devb)"
      and c: "alloc_workspace hdr netb devb = (True, net1, dev1)"
    by (auto simp: load_model_def split: prod.splits if_splits)
  note fa = load_layers_Done [OF a] and fb = load_policy_map_Done [OF b]
    and fc = alloc_workspace_frame [OF c]
  show "net_header net1 = net_header net"
    by (simp add: fa fb fc)
  show "0 \<le> h_blocks hdr"
    by (rule fa)
  show "length (tower net1) = nat (h_blocks hdr)"
    by (simp add: fa fb fc)
  show "conv_outC (policyOut net1) = h_policyC hdr"
    by (simp add: fa fb fc)
  show "dense_outD (valueFc2 net1) = 3"
    by (simp add: fa fb fc)
  show "0 \<le> h_policyMapLen hdr"
    by (rule fb)
qed

text \<open>What \<open>create_net\<close> has read and built when it returns a net.\<close>

lemma create_net_Handle:
  assumes "fst (create_net gpus file dev) = Handle net"
  obtains f hdr f3 dev0 dev1 where "file = Some f"
    and "read_header (drop 8 f) = (True, hdr, f3)"
    and "h_wdlOutputs hdr = 3"
    and "load_model hdr f3
           (SyclNet0\<lparr>inputC := h_inputC hdr, trunkC := h_trunkC hdr, blocks := h_blocks hdr,
              policyC := h_policyC hdr, valueC := h_valueC hdr,
              valueHidden := h_valueHidden hdr, policyMapLen := h_policyMapLen hdr,
              policySize := h_policyMapLen hdr\<rparr>) dev0 = (Done, net, dev1)"
  using assms
  by (auto simp: create_net_def Let_def read_i32_eq read_bytes_def
        split: if_splits prod.splits option.splits outcome.splits)

lemma create_net_header:
  assumes "fst (create_net gpus (Some f) dev) = Handle net"
  shows "net_header net = [header_field f 0, header_field f 1, header_field f 2,
           header_field f 3, header_field f 4, header_field f 5, header_field f 6,
           header_field f 6]"
    and "int (length (tower net)) = blocks net"
    and "conv_outC (policyOut net) = policyC net"
    and "dense_outD (valueFc2 net) = 3"
    and "0 \<le> policySize net"
proof -
  from assms obtain hdr f3 dev0 dev1
    where h: "read_header (drop 8 f) = (True, hdr, f3)"
      and m: "load_model hdr f3
           (SyclNet0\<lparr>inputC := h_inputC hdr, trunkC := h_trunkC hdr, blocks := h_blocks hdr,
              policyC := h_policyC hdr, valueC := h_valueC hdr,
              valueHidden := h_valueHidden hdr, policyMapLen := h_policyMapLen hdr,
              policySize := h_policyMapLen hdr\<rparr>) dev0 = (Done, net, dev1)"
    by (elim create_net_Handle) auto
  note lm = load_model_Done [OF m]
  have nh: "net_header net = [h_inputC hdr, h_trunkC hdr, h_blocks hdr, h_policyC hdr,
      h_valueC hdr, h_valueHidden hdr, h_policyMapLen hdr, h_policyMapLen hdr]"
    by (simp add: lm(1)) (simp add: net_header_def)
  show "net_header net = [header_field f 0, header_field f 1, header_field f 2,
           header_field f 3, header_field f 4, header_field f 5, header_field f 6,
           header_field f 6]"
    by (simp add: nh read_header_True [OF h] header_field_def add.commute)
  from nh have b: "blocks net = h_blocks hdr" and p: "policyC net = h_policyC hdr"
    and s: "policySize net = h_policyMapLen hdr"
    by (simp_all add: net_header_def)
  show "int (length (tower net)) = blocks net"
    using lm(2,3) by (simp add: b)
  show "conv_outC (policyOut net) = policyC net"
    by (simp add: lm(4) p)
  show "dense_outD (valueFc2 net) = 3"
    by (rule lm(5))
  show "0 \<le> policySize net"
    using lm(6) by (simp add: s)
qed

subsection \<open>The concrete files, loaded\<close>



lemma create_net_file_112: "fst (create_net 1 (Some file_112) dev0) = Handle net112"
  by code_simp

subsection \<open>Indices and loops of the kernels\<close>

lemma and_63_mod: "(x :: int) AND 63 = x mod 64"
proof -
  have "x AND mask 6 = take_bit 6 x"
    by (simp add: take_bit_eq_mask)
  then show ?thesis
    by (simp add: mask_eq_exp_minus_1 take_bit_eq_mod)
qed

lemma and_7_mod: "(x :: int) AND 7 = x mod 8"
proof -
  have "x AND mask 3 = take_bit 3 x"
    by (simp add: take_bit_eq_mask)
  then show ?thesis
    by (simp add: mask_eq_exp_minus_1 take_bit_eq_mod)
qed

text \<open>A work item \<open>idx = ch * 64 + sq\<close> finds its channel and its square.\<close>

lemma idx_channel: "0 \<le> sq \<Longrightarrow> sq < 64 \<Longrightarrow> drop_bit 6 (ch * 64 + sq :: int) = ch"
  by (simp add: drop_bit_eq_div)

lemma idx_square: "0 \<le> sq \<Longrightarrow> sq < 64 \<Longrightarrow> (ch * 64 + sq :: int) AND 63 = sq"
  by (simp add: and_63_mod)

lemma square_row: "0 \<le> col \<Longrightarrow> col < 8 \<Longrightarrow> drop_bit 3 (row * 8 + col :: int) = row"
  by (simp add: drop_bit_eq_div)

lemma square_col: "0 \<le> col \<Longrightarrow> col < 8 \<Longrightarrow> (row * 8 + col :: int) AND 7 = col"
  by (simp add: and_7_mod)

text \<open>A loop that adds a term to the accumulator in each round computes a sum.\<close>

lemma for_loop_sum:
  assumes "\<And>i acc. body i acc = acc + g i"
  shows "for_loop n body (a :: real) = a + (\<Sum>i = 0..<nat n. g (int i))"
proof -
  have "fold body (map int [0..<m]) a = a + (\<Sum>i = 0..<m. g (int i))" for m
    by (induction m) (simp_all add: assms)
  then show ?thesis
    by (simp add: for_loop_def)
qed

subsection \<open>Every block of the tower is loaded\<close>

lemma load_conv_pointers:
  "load_conv f out dev = (True, f1, out1, dev1) \<Longrightarrow>
     conv_d_w out1 \<noteq> None \<and> conv_d_b out1 \<noteq> None"
  by (auto simp: load_conv_def sycl_alloc_def Let_def split: prod.splits if_splits)

lemma load_block_loaded:
  assumes "load_block i f net mh dev = (True, f1, net1, mh1, dev1)" and "i < length (tower net)"
  shows "block_loaded (tower net1 ! i)"
    and "j \<noteq> i \<Longrightarrow> tower net1 ! j = tower net ! j"
  using assms
  by (auto simp: load_block_def Let_def block_loaded_def
        split: prod.splits if_splits dest!: load_conv_pointers)

lemma load_blocks_loaded:
  assumes "load_blocks n i f net mh dev = (True, f1, net1, mh1, dev1)"
    and "i + n \<le> length (tower net)"
  shows "(\<forall>j. i \<le> j \<and> j < i + n \<longrightarrow> block_loaded (tower net1 ! j))
         \<and> (\<forall>j < i. tower net1 ! j = tower net ! j)"
  using assms
proof (induction n arbitrary: i f net mh dev)
  case 0
  then show ?case by auto
next
  case (Suc n)
  obtain ok' f' net' mh' dev' where b: "load_block i f net mh dev = (ok', f', net', mh', dev')"
    by (metis prod_cases5)
  with Suc.prems(1) have ok: "ok'"
    and r: "load_blocks n (Suc i) f' net' mh' dev' = (True, f1, net1, mh1, dev1)"
    by (auto split: if_splits)
  from Suc.prems(2) have i: "i < length (tower net)"
    by simp
  note lb = load_block_loaded [OF b [unfolded eqTrueI [OF ok]] i]
  from load_block_frame [OF b] Suc.prems(2) have "Suc i + n \<le> length (tower net')"
    by simp
  from Suc.IH [OF r this]
  have ih1: "\<And>j. Suc i \<le> j \<Longrightarrow> j < Suc i + n \<Longrightarrow> block_loaded (tower net1 ! j)"
    and ih2: "\<And>j. j < Suc i \<Longrightarrow> tower net1 ! j = tower net' ! j"
    by auto
  show ?case
  proof (intro conjI allI impI)
    fix j
    assume "i \<le> j \<and> j < i + Suc n"
    then consider "j = i" | "Suc i \<le> j" "j < Suc i + n"
      by force
    then show "block_loaded (tower net1 ! j)"
    proof cases
      case 1
      with ih2 [of i] lb(1) show ?thesis
        by simp
    next
      case 2
      then show ?thesis
        by (rule ih1)
    qed
  next
    fix j
    assume "j < i"
    with ih2 [of j] lb(2) [of j] show "tower net1 ! j = tower net ! j"
      by simp
  qed
qed

lemma load_layers_loaded:
  assumes "load_layers hdr f net dev = (Done, f1, net1, dev1)"
  shows "list_all block_loaded (tower net1)"
proof -
  from assms obtain fa c0 deva fb netb mh devb
    where lb: "load_blocks (nat (h_blocks hdr)) 0 fa
                (net\<lparr>inputLayer := c0,
                     paramCount := paramCount net + conv_params c0,
                     tower := replicate (nat (h_blocks hdr)) ResidualBlock0\<rparr>) 0 deva
              = (True, fb, netb, mh, devb)"
      and t: "tower net1 = tower netb"
    by (auto simp: load_layers_def Let_def split: prod.splits if_splits)
  from load_blocks_frame [OF lb] have len: "length (tower netb) = nat (h_blocks hdr)"
    by simp
  from load_blocks_loaded [OF lb] have "\<forall>j < nat (h_blocks hdr). block_loaded (tower netb ! j)"
    by simp
  with len t show ?thesis
    by (simp add: list_all_length)
qed

lemma create_net_loaded:
  assumes "fst (create_net gpus file dev) = Handle net"
  shows "list_all block_loaded (tower net)"
proof -
  from assms obtain hdr f3 dev0 dev1 net0
    where m: "load_model hdr f3 net0 dev0 = (Done, net, dev1)"
    by (elim create_net_Handle) auto
  then obtain fa neta deva fb netb devb
    where a: "load_layers hdr f3 net0 dev0 = (Done, fa, neta, deva)"
      and b: "load_policy_map hdr fa neta deva = (Done, fb, netb, devb)"
      and c: "alloc_workspace hdr netb devb = (True, net, dev1)"
    by (auto simp: load_model_def split: prod.splits if_splits)
  from load_layers_loaded [OF a] load_policy_map_Done(2) [OF b] alloc_workspace_frame(2) [OF c]
  show ?thesis
    by simp
qed

subsection \<open>Teardown frees what the net owns\<close>

lemma sycl_free_frees: "mset (frees (sycl_free dev p)) = mset (frees dev) + ptr_mset p"
  by (cases p) (simp_all add: sycl_free_def ptr_mset_def)

lemma sycl_free_allocs [simp]: "allocs (sycl_free dev p) = allocs dev"
  by (cases p) (simp_all add: sycl_free_def)

lemma freeConv_frees: "mset (frees (freeConv dev c)) = mset (frees dev) + owned_conv c"
  by (simp add: freeConv_def sycl_free_frees owned_conv_def)

lemma freeConv_allocs [simp]: "allocs (freeConv dev c) = allocs dev"
  by (simp add: freeConv_def)

lemma freeDense_frees: "mset (frees (freeDense dev d)) = mset (frees dev) + owned_dense d"
  by (simp add: freeDense_def sycl_free_frees owned_dense_def)

lemma freeDense_allocs [simp]: "allocs (freeDense dev d) = allocs dev"
  by (simp add: freeDense_def)

lemma freeSe_frees: "mset (frees (freeSe dev s)) = mset (frees dev) + owned_se s"
  by (simp add: freeSe_def sycl_free_frees owned_se_def)

lemma freeSe_allocs [simp]: "allocs (freeSe dev s) = allocs dev"
  by (simp add: freeSe_def)

lemma freeBlock_frees: "mset (frees (freeBlock b dev)) = mset (frees dev) + owned_block b"
  by (simp add: freeBlock_def Let_def freeConv_frees freeSe_frees owned_block_def)

lemma freeBlock_allocs [simp]: "allocs (freeBlock b dev) = allocs dev"
  by (simp add: freeBlock_def Let_def)

lemma fold_freeBlock_frees:
  "mset (frees (fold freeBlock bs dev)) = mset (frees dev) + sum_list (map owned_block bs)"
  by (induction bs arbitrary: dev) (simp_all add: freeBlock_frees)

lemma fold_freeBlock_allocs [simp]: "allocs (fold freeBlock bs dev) = allocs dev"
  by (induction bs arbitrary: dev) simp_all

lemma fold_sycl_free_frees:
  "mset (frees (fold (\<lambda>p d. sycl_free d p) ps dev)) = mset (frees dev) + sum_list (map ptr_mset ps)"
  by (induction ps arbitrary: dev) (simp_all add: sycl_free_frees)

lemma fold_sycl_free_allocs [simp]: "allocs (fold (\<lambda>p d. sycl_free d p) ps dev) = allocs dev"
  by (induction ps arbitrary: dev) simp_all

lemma destroy_net_frees:
  "mset (frees (destroy_net (Some net) dev)) = mset (frees dev) + owned_net net"
  by (simp add: destroy_net_def Let_def sycl_free_frees fold_freeBlock_frees
        freeConv_frees freeDense_frees owned_net_def ac_simps)

lemma destroy_net_allocs [simp]: "allocs (destroy_net h dev) = allocs dev"
  by (cases h) (simp_all add: destroy_net_def Let_def)

subsection \<open>Loading on a device that does not fail\<close>

lemma dev_op_nil: "script dev = [] \<Longrightarrow> dev_op dev = (True, dev)"
  by (simp add: dev_op_def)

lemma sycl_alloc_nil:
  "script dev = [] \<Longrightarrow>
     sycl_alloc dev n = (True, Some (next_ptr dev),
        dev\<lparr>next_ptr := Suc (next_ptr dev), allocs := (next_ptr dev, n) # allocs dev\<rparr>)"
  by (simp add: sycl_alloc_def dev_op_nil)

lemma sycl_copy_nil:
  "script dev = [] \<Longrightarrow>
     sycl_copy_to_device dev dst src
       = (True, case dst of None \<Rightarrow> dev | Some a \<Rightarrow> dev\<lparr>fmem := (fmem dev)(a := src)\<rparr>)"
  by (simp add: sycl_copy_to_device_def dev_op_nil)

lemma sycl_copy_ints_nil:
  "script dev = [] \<Longrightarrow>
     sycl_copy_ints_to_device dev dst src
       = (True, case dst of None \<Rightarrow> dev | Some a \<Rightarrow> dev\<lparr>imem := (imem dev)(a := src)\<rparr>)"
  by (simp add: sycl_copy_ints_to_device_def dev_op_nil)

lemma ptr_mset_empty [simp]: "ptr_mset p = {#} \<longleftrightarrow> p = None"
  by (cases p) (simp_all add: ptr_mset_def)

lemma ptr_mset_simps [simp]: "ptr_mset None = {#}" "ptr_mset (Some a) = {#a#}"
  by (simp_all add: ptr_mset_def)

text \<open>
  On such a device a loader fails only before its first allocation. Whether it fails or
  not, the buffers it has allocated are the ones its struct owns, and it frees nothing.
\<close>

lemma load_conv_quiet:
  assumes "script dev = []" and "load_conv f out dev = (ok, f1, out1, dev1)"
    and "owned_conv out = {#}"
  shows "script dev1 = [] \<and> frees dev1 = frees dev
         \<and> allocated dev1 = allocated dev + owned_conv out1"
  using assms
  by (auto simp: load_conv_def sycl_alloc_nil sycl_copy_nil Let_def allocated_def
        owned_conv_def split: prod.splits if_splits)

lemma load_dense_quiet:
  assumes "script dev = []" and "load_dense f out expectedOut dev = (ok, f1, out1, dev1)"
    and "owned_dense out = {#}"
  shows "script dev1 = [] \<and> frees dev1 = frees dev
         \<and> allocated dev1 = allocated dev + owned_dense out1"
  using assms
  by (auto simp: load_dense_def sycl_alloc_nil sycl_copy_nil Let_def allocated_def
        owned_dense_def split: prod.splits if_splits)

lemma load_se_quiet:
  assumes "script dev = []"
    and "load_se f out present channels mh dev = (ok, f1, out1, present1, mh1, dev1)"
    and "owned_se out = {#}"
  shows "script dev1 = [] \<and> frees dev1 = frees dev
         \<and> allocated dev1 = allocated dev + owned_se out1
         \<and> (\<not> ok \<longrightarrow> owned_se out1 = {#})
         \<and> (ok \<and> \<not> present1 \<longrightarrow> owned_se out1 = {#})"
  using assms
  by (auto simp: load_se_def sycl_alloc_nil sycl_copy_nil Let_def allocated_def
        owned_se_def split: prod.splits if_splits)

lemma ResidualBlock0_sel [simp]:
  "conv1 ResidualBlock0 = ConvLayer0" "conv2 ResidualBlock0 = ConvLayer0"
  "hasSe ResidualBlock0 = False" "se ResidualBlock0 = SeUnit0"
  by (simp_all add: ResidualBlock0_def)

lemma owned_block0 [simp]: "owned_block ResidualBlock0 = {#}"
  by (simp add: owned_block_def ResidualBlock0_def owned_conv_def ConvLayer0_def)

lemma sum_list_owned_update:
  "i < length bs \<Longrightarrow> owned_block (bs ! i) = {#} \<Longrightarrow>
     sum_list (map owned_block (bs[i := b])) = sum_list (map owned_block bs) + owned_block b"
proof (induction bs arbitrary: i)
  case Nil
  then show ?case by simp
next
  case (Cons a bs)
  then show ?case
    by (cases i) simp_all
qed

text \<open>One round of the loop over the blocks, started on a block that is still empty.\<close>

lemma load_block_quiet:
  assumes q: "script dev = []"
    and r: "load_block i f net mh dev = (ok, f1, net1, mh1, dev1)"
    and e: "tower net ! i = ResidualBlock0"
  shows "script dev1 = [] \<and> frees dev1 = frees dev
         \<and> (\<exists>b p. net1 = net\<lparr>tower := (tower net)[i := b], paramCount := p\<rparr>
                \<and> allocated dev1 = allocated dev + owned_block b)"
proof -
  have z: "owned_conv ConvLayer0 = {#}" "owned_se SeUnit0 = {#}"
    by (simp_all add: owned_conv_def ConvLayer0_def owned_se_def SeUnit0_def)
  obtain ok1 fa c1 da where s1: "load_conv f ConvLayer0 dev = (ok1, fa, c1, da)"
    by (metis prod_cases4)
  note q1 = load_conv_quiet [OF q s1 z(1)]
  obtain ok2 fb c2 db where s2: "load_conv fa ConvLayer0 da = (ok2, fb, c2, db)"
    by (metis prod_cases4)
  from q1 have qa: "script da = []"
    by simp
  note q2 = load_conv_quiet [OF qa s2 z(1)]
  obtain ok3 fc s3 present mh3 dc
    where s3: "load_se fb SeUnit0 False (conv_outC c2) mh db = (ok3, fc, s3, present, mh3, dc)"
    by (metis prod_cases6)
  from q2 have qb: "script db = []"
    by simp
  note q3 = load_se_quiet [OF qb s3 z(2)]
  have fin: ?thesis
    if "net1 = net\<lparr>tower := (tower net)[i := B], paramCount := P\<rparr>"
      and "allocated dev1 = allocated dev + owned_block B"
      and "script dev1 = []" and "frees dev1 = frees dev" for B P
    using that by blast
  show ?thesis
  proof (cases ok1)
    case False
    with r s1 e have d: "dev1 = da"
      and n: "net1 = net\<lparr>tower := (tower net)[i := ResidualBlock0\<lparr>conv1 := c1\<rparr>]\<rparr>"
      by (auto simp: load_block_def Let_def)
    show ?thesis
    proof (rule fin [where B = "ResidualBlock0\<lparr>conv1 := c1\<rparr>" and P = "paramCount net"])
      show "net1 = net\<lparr>tower := (tower net)[i := ResidualBlock0\<lparr>conv1 := c1\<rparr>],
          paramCount := paramCount net\<rparr>"
        by (simp add: n)
    qed (use q1 d in \<open>simp_all add: owned_block_def z\<close>)
  next
    case ok1: True
    show ?thesis
    proof (cases ok2)
      case False
      with ok1 r s1 s2 e have d: "dev1 = db"
        and n: "net1 = net\<lparr>tower := (tower net)[i := ResidualBlock0\<lparr>conv1 := c1,
            conv2 := c2\<rparr>]\<rparr>"
        by (auto simp: load_block_def Let_def)
      show ?thesis
      proof (rule fin [where B = "ResidualBlock0\<lparr>conv1 := c1, conv2 := c2\<rparr>"
            and P = "paramCount net"])
        show "net1 = net\<lparr>tower := (tower net)[i := ResidualBlock0\<lparr>conv1 := c1,
            conv2 := c2\<rparr>], paramCount := paramCount net\<rparr>"
          by (simp add: n)
      qed (use q1 q2 d in \<open>simp_all add: owned_block_def z\<close>)
    next
      case ok2: True
      show ?thesis
      proof (cases ok3)
        case False
        with ok1 ok2 r s1 s2 s3 e have d: "dev1 = dc"
          and n: "net1 = net\<lparr>tower := (tower net)[i := ResidualBlock0\<lparr>conv1 := c1,
                conv2 := c2, se := s3\<rparr>],
              paramCount := paramCount net + conv_params c1 + conv_params c2\<rparr>"
          by (auto simp: load_block_def Let_def)
        from n show ?thesis
          by (rule fin) (use q1 q2 q3 d False in \<open>simp_all add: owned_block_def z\<close>)
      next
        case ok3: True
        with ok1 ok2 r s1 s2 s3 e have d: "dev1 = dc"
          and n: "net1 = net\<lparr>tower := (tower net)[i := ResidualBlock0\<lparr>conv1 := c1,
                conv2 := c2, se := s3, hasSe := present\<rparr>],
              paramCount := paramCount net1\<rparr>"
          by (auto simp: load_block_def Let_def)
        from n show ?thesis
          by (rule fin) (use q1 q2 q3 d ok3 in \<open>auto simp: owned_block_def z\<close>)
      qed
    qed
  qed
qed

text \<open>The loop over the blocks, started at index \<open>i\<close> on blocks that are still empty.\<close>

lemma load_blocks_quiet:
  assumes "script dev = []"
    and "load_blocks n i f net mh dev = (ok, f1, net1, mh1, dev1)"
    and "\<forall>j. i \<le> j \<and> j < i + n \<longrightarrow> tower net ! j = ResidualBlock0"
    and "i + n \<le> length (tower net)"
  shows "script dev1 = [] \<and> frees dev1 = frees dev
         \<and> (\<exists>t p. net1 = net\<lparr>tower := t, paramCount := p\<rparr>
                \<and> allocated dev1 + sum_list (map owned_block (tower net))
                    = allocated dev + sum_list (map owned_block t))"
  using assms
proof (induction n arbitrary: i f net mh dev)
  case 0
  have "net1 = net\<lparr>tower := tower net, paramCount := paramCount net\<rparr>"
    using 0 by simp
  with 0 show ?case
    by (intro conjI exI [of _ "tower net"] exI [of _ "paramCount net"]) simp_all
next
  case (Suc n)
  obtain oka fa neta mha deva where s: "load_block i f net mh dev = (oka, fa, neta, mha, deva)"
    by (metis prod_cases5)
  have e: "tower net ! i = ResidualBlock0" and il: "i < length (tower net)"
    using Suc.prems(3,4) by simp_all
  from load_block_quiet [OF Suc.prems(1) s e]
  obtain b p where qa: "script deva = []" and fr: "frees deva = frees dev"
    and na: "neta = net\<lparr>tower := (tower net)[i := b], paramCount := p\<rparr>"
    and al: "allocated deva = allocated dev + owned_block b"
    by blast
  have su: "sum_list (map owned_block (tower neta))
              = sum_list (map owned_block (tower net)) + owned_block b"
    using sum_list_owned_update [OF il, of b] e by (simp add: na)
  show ?case
  proof (cases oka)
    case False
    with Suc.prems(2) s have "net1 = neta" "dev1 = deva"
      by simp_all
    with qa fr na al su show ?thesis
      by (intro conjI exI [of _ "(tower net)[i := b]"] exI [of _ p]) (simp_all add: ac_simps)
  next
    case True
    with Suc.prems(2) s
    have r: "load_blocks n (Suc i) fa neta mha deva = (ok, f1, net1, mh1, dev1)"
      by simp
    have "\<forall>j. Suc i \<le> j \<and> j < Suc i + n \<longrightarrow> tower neta ! j = ResidualBlock0"
      using Suc.prems(3) by (simp add: na)
    moreover have "Suc i + n \<le> length (tower neta)"
      using Suc.prems(4) by (simp add: na)
    ultimately obtain t p' where q1: "script dev1 = []" and f1: "frees dev1 = frees deva"
      and n1: "net1 = neta\<lparr>tower := t, paramCount := p'\<rparr>"
      and a1: "allocated dev1 + sum_list (map owned_block (tower neta))
                = allocated deva + sum_list (map owned_block t)"
      using Suc.IH [OF qa r] by blast
    from a1 have "allocated dev1 + sum_list (map owned_block (tower net)) + owned_block b
                   = allocated dev + sum_list (map owned_block t) + owned_block b"
      by (simp add: su al ac_simps)
    then have "allocated dev1 + sum_list (map owned_block (tower net))
                 = allocated dev + sum_list (map owned_block t)"
      by simp
    moreover have "net1 = net\<lparr>tower := t, paramCount := p'\<rparr>"
      by (simp add: n1 na)
    ultimately show ?thesis
      using q1 f1 fr by (intro conjI exI [of _ t] exI [of _ p']) simp_all
  qed
qed

lemma sum_list_replicate_empty [simp]: "sum_list (replicate n ({#} :: nat multiset)) = {#}"
  by (induction n) simp_all

lemma owned_net_empty:
  assumes "owned_net net = {#}"
  shows "owned_conv (inputLayer net) = {#}" "sum_list (map owned_block (tower net)) = {#}"
    "owned_conv (policyStem net) = {#}" "owned_conv (policyOut net) = {#}"
    "owned_conv (valueConv net) = {#}" "owned_dense (valueFc1 net) = {#}"
    "owned_dense (valueFc2 net) = {#}" "d_policyMap net = None" "d_policyMapped net = None"
    "d_in net = None" "d_cur net = None" "d_next net = None" "d_tmp net = None"
    "d_scratch net = None" "d_policyHidden net = None" "d_policyPlanes net = None"
    "d_valueInput net = None" "d_fc1 net = None" "d_logits net = None"
    "d_sePooled net = None" "d_seHidden net = None" "d_seGates net = None"
  using assms by (simp_all add: owned_net_def)

text \<open>
  \<open>load_layers\<close> on a device that does not fail, started on a net that owns no buffer:
  whatever the outcome, the buffers allocated are those the net owns.
\<close>

lemma load_layers_quiet:
  assumes q: "script dev = []"
    and r: "load_layers hdr f net dev = (oc, f1, net1, dev1)"
    and z: "owned_net net = {#}"
  shows "script dev1 = [] \<and> frees dev1 = frees dev
         \<and> allocated dev1 = allocated dev + owned_net net1 \<and> d_policyMap net1 = None"
proof -
  note z0 = owned_net_empty [OF z]
  obtain ok0 fa c0 da where s0: "load_conv f (inputLayer net) dev = (ok0, fa, c0, da)"
    by (metis prod_cases4)
  note q0 = load_conv_quiet [OF q s0 z0(1)]
  define n3 where "n3 = net\<lparr>inputLayer := c0, paramCount := paramCount net + conv_params c0,
      tower := replicate (nat (h_blocks hdr)) ResidualBlock0\<rparr>"
  obtain okb fb n4 mhb db
    where sb: "load_blocks (nat (h_blocks hdr)) 0 fa n3 0 da = (okb, fb, n4, mhb, db)"
    by (metis prod_cases5)
  from q0 have qa: "script da = []"
    by simp
  have "script db = [] \<and> frees db = frees da
         \<and> (\<exists>t p. n4 = n3\<lparr>tower := t, paramCount := p\<rparr>
                \<and> allocated db + sum_list (map owned_block (tower n3))
                    = allocated da + sum_list (map owned_block t))"
    by (rule load_blocks_quiet [OF qa sb]) (simp_all add: n3_def)
  then obtain t p where qb: "script db = []" "frees db = frees da"
    and n4: "n4 = n3\<lparr>tower := t, paramCount := p\<rparr>"
    and ab': "allocated db + sum_list (map owned_block (tower n3))
               = allocated da + sum_list (map owned_block t)"
    by blast
  from ab' have ab: "allocated db = allocated da + sum_list (map owned_block t)"
    by (simp add: n3_def)
  obtain ok1 fc c1 dc where s1: "load_conv fb (policyStem net) db = (ok1, fc, c1, dc)"
    by (metis prod_cases4)
  note q1 = load_conv_quiet [OF qb(1) s1 z0(3)]
  from q1 have qc: "script dc = []"
    by simp
  obtain ok2 fd c2 dd where s2: "load_conv fc (policyOut net) dc = (ok2, fd, c2, dd)"
    by (metis prod_cases4)
  note q2 = load_conv_quiet [OF qc s2 z0(4)]
  from q2 have qd: "script dd = []"
    by simp
  obtain ok3 fe c3 de where s3: "load_conv fd (valueConv net) dd = (ok3, fe, c3, de)"
    by (metis prod_cases4)
  note q3 = load_conv_quiet [OF qd s3 z0(5)]
  from q3 have qe: "script de = []"
    by simp
  obtain ok4 ff d1 df
    where s4: "load_dense fe (valueFc1 net) (h_valueHidden hdr) de = (ok4, ff, d1, df)"
    by (metis prod_cases4)
  note q4 = load_dense_quiet [OF qe s4 z0(6)]
  from q4 have qf: "script df = []"
    by simp
  obtain ok5 fg d2 dg where s5: "load_dense ff (valueFc2 net) 3 df = (ok5, fg, d2, dg)"
    by (metis prod_cases4)
  note q5 = load_dense_quiet [OF qf s5 z0(7)]
  show ?thesis
    using r s0 sb s1 s2 s3 s4 s5 q0 qb ab q1 q2 q3 q4 q5 z0
    by (auto simp: load_layers_def Let_def owned_net_def n3_def n4 split: if_splits)
qed

lemma load_policy_map_quiet:
  assumes "script dev = []"
    and "load_policy_map hdr f net dev = (oc, f1, net1, dev1)"
    and "d_policyMap net = None"
  shows "script dev1 = [] \<and> frees dev1 = frees dev
         \<and> allocated dev1 + owned_net net = allocated dev + owned_net net1"
  using assms
  by (auto simp: load_policy_map_def sycl_alloc_nil sycl_copy_ints_nil Let_def allocated_def
        owned_net_def split: prod.splits if_splits)

lemma alloc_workspace_quiet:
  assumes "script dev = []"
  shows "fst (alloc_workspace hdr net dev)"
  using assms by (simp add: alloc_workspace_def alloc_ws_def sycl_alloc_nil)

text \<open>A detected failure of \<open>create_net\<close> leaves a net that owns every buffer allocated.\<close>

lemma load_model_quiet:
  assumes q: "script dev = []"
    and r: "load_model hdr f net dev = (Failed, net1, dev1)"
    and z: "owned_net net = {#}"
  shows "frees dev1 = frees dev \<and> allocated dev1 = allocated dev + owned_net net1"
proof -
  obtain o1 fa na da where s1: "load_layers hdr f net dev = (o1, fa, na, da)"
    by (metis prod_cases4)
  note q1 = load_layers_quiet [OF q s1 z]
  from q1 have qa: "script da = []" and pa: "d_policyMap na = None"
    by simp_all
  obtain o2 fb nb db where s2: "load_policy_map hdr fa na da = (o2, fb, nb, db)"
    by (metis prod_cases4)
  note q2 = load_policy_map_quiet [OF qa s2 pa]
  from q2 have qb: "script db = []"
    by simp
  have w: "fst (alloc_workspace hdr nb db)"
    by (rule alloc_workspace_quiet [OF qb])
  from q1 q2 have ab: "allocated db = allocated dev + owned_net nb"
    by (metis add.assoc add.commute add_left_cancel)
  show ?thesis
    using r s1 s2 q1 q2 w ab
    by (auto simp: load_model_def split: prod.splits if_splits)
qed

lemma owned_net_initial:
  "owned_net (SyclNet0\<lparr>inputC := a, trunkC := b, blocks := c, policyC := d, valueC := e,
      valueHidden := g, policyMapLen := h, policySize := k\<rparr>) = {#}"
  by (simp add: owned_net_def SyclNet0_def owned_conv_def ConvLayer0_def owned_dense_def
        DenseLayer0_def)

text \<open>
  On a device that does not fail, a \<open>create_net\<close> that returns null has freed exactly the
  buffers it allocated.
\<close>

lemma create_net_rollback:
  assumes q: "script dev = []"
    and r: "create_net gpus fl dev = (Null, dev')"
  shows "mset (frees dev') + allocated dev = mset (frees dev) + allocated dev'"
proof -
  have d: "mset (frees (destroy_net (Some net1) dev1)) + allocated dev
             = mset (frees dev) + allocated (destroy_net (Some net1) dev1)"
    if "load_model hdr f net dev = (Failed, net1, dev1)" and "owned_net net = {#}"
    for hdr f net net1 dev1
  proof -
    from load_model_quiet [OF q that]
    have "frees dev1 = frees dev" and "allocated dev1 = allocated dev + owned_net net1"
      by simp_all
    then show ?thesis
      by (simp add: destroy_net_frees allocated_def ac_simps)
  qed
  show ?thesis
    using r q
    by (auto simp: create_net_def dev_op_nil Let_def owned_net_initial
          split: if_splits option.splits prod.splits outcome.splits intro: d)
qed

subsection \<open>Null arguments of predict\<close>

text \<open>
  Claim C10. A call of predict with a null handle, or with a null reference for any of the
  three arrays, returns 0.0; the arrays, the workspace and the device are as before the
  call, whatever the lengths of the arrays that are present, so the call is rejected before
  any length is compared and before any device work.
\<close>

theorem predict_null_argument:
  assumes "handle = None \<or> jencoded = None \<or> joutPolicy = None \<or> joutWdl = None"
  shows "nativePredict handle jencoded joutPolicy joutWdl ws dev
           = (0, handle, joutPolicy, joutWdl, ws, dev)"
  using assms by (auto simp: nativePredict_def)

theorem predict_null_argument_witness:
  "(Some net112 = None \<or> (None :: real list option) = None \<or> Some [7, 7 :: real] = None
      \<or> Some [9, 9, 9 :: real] = None)
   \<and> nativePredict (Some net112) None (Some [7, 7]) (Some [9, 9, 9]) ws0 dev0
       = (0, Some net112, Some [7, 7], Some [9, 9, 9], ws0, dev0)"
  using predict_null_argument [of "Some net112" None "Some [7, 7]" "Some [9, 9, 9]" ws0 dev0]
  by simp

subsection \<open>Failure of predict\<close>

text \<open>
  Claim C8. When a call of predict fails, for a null handle, an encoded input, a policy
  array or a WDL array of the wrong length, or a device copy that fails at any of the three
  copies of the pipeline, it returns 0.0 and the policy array and the WDL array are the ones
  the caller passed. The same holds for the two other ways to fail: a null array and a net
  whose number of input planes is not 112.
\<close>

theorem predict_failure_leaves_outputs:
  assumes "handle = None
           \<or> jencoded = None \<or> joutPolicy = None \<or> joutWdl = None
           \<or> int (length (the jencoded)) \<noteq> inputC (the handle) * 64
           \<or> int (length (the joutPolicy)) \<noteq> policySize (the handle)
           \<or> length (the joutWdl) \<noteq> 3
           \<or> inputC (the handle) \<noteq> 112
           \<or> \<not> copies_succeed dev"
  shows "case nativePredict handle jencoded joutPolicy joutWdl ws dev of
           (v, handle1, joutPolicy1, joutWdl1, ws1, dev1) \<Rightarrow>
             v = 0 \<and> joutPolicy1 = joutPolicy \<and> joutWdl1 = joutWdl"
proof (cases "handle = None \<or> jencoded = None \<or> joutPolicy = None \<or> joutWdl = None")
  case True
  then show ?thesis
    by (auto simp: nativePredict_def)
next
  case False
  then obtain net where h: "handle = Some net"
    by auto
  show ?thesis
  proof (cases "int (length (the jencoded)) \<noteq> inputC net * 64
                \<or> int (length (the joutPolicy)) \<noteq> policySize net
                \<or> length (the joutWdl) \<noteq> 3")
    case True
    with False h show ?thesis
      by (auto simp: nativePredict_def Let_def)
  next
    case lengths: False
    with assms False h have "inputC net \<noteq> 112 \<or> \<not> copies_succeed dev"
      by auto
    then have "\<not> fst (eval_one (Some net) enc outs ws dev)" for enc outs
      by (simp add: eval_one_ok_iff)
    with False h lengths show ?thesis
      by (auto simp: nativePredict_def Let_def case_prod_beta)
  qed
qed

theorem predict_failure_leaves_outputs_witness:
  "(Some net112 = None
    \<or> Some (replicate 7168 (0 :: real)) = None \<or> Some [7, 7 :: real] = None
    \<or> Some [9, 9, 9 :: real] = None
    \<or> int (length (the (Some (replicate 7168 (0 :: real))))) \<noteq> inputC (the (Some net112)) * 64
    \<or> int (length (the (Some [7, 7 :: real]))) \<noteq> policySize (the (Some net112))
    \<or> length (the (Some [9, 9, 9 :: real])) \<noteq> 3
    \<or> inputC (the (Some net112)) \<noteq> 112
    \<or> \<not> copies_succeed (dev0\<lparr>script := [True, False]\<rparr>))
   \<and> (case nativePredict (Some net112) (Some (replicate 7168 0)) (Some [7, 7])
              (Some [9, 9, 9]) ws0 (dev0\<lparr>script := [True, False]\<rparr>) of
         (v, handle1, joutPolicy1, joutWdl1, ws1, dev1) \<Rightarrow>
           v = 0 \<and> joutPolicy1 = Some [7, 7] \<and> joutWdl1 = Some [9, 9, 9])"
proof -
  have c: "\<not> copies_succeed (dev0\<lparr>script := [True, False]\<rparr>)"
    by (simp add: copies_succeed_def)
  show ?thesis
    using c predict_failure_leaves_outputs
      [of "Some net112" "Some (replicate 7168 0)" "Some [7, 7]" "Some [9, 9, 9]"
          "dev0\<lparr>script := [True, False]\<rparr>" ws0]
    by simp
qed

subsection \<open>When predict succeeds\<close>



subsection \<open>The WDL triple\<close>



subsection \<open>Nets of another number of input planes\<close>



subsection \<open>The information about a loaded net\<close>

text \<open>
  Claim C9. For a net that \<open>create_net\<close> has built from a file, getInfo returns the seven
  integers inputC, trunkC, blocks, policyC, valueC, policySize, paramCount in this order;
  the first five are the header fields 0 to 4 of the file, policySize is header field 6
  (policyMapLen), and blocks is the length of the tower, every block of which has been
  loaded.
\<close>

theorem getInfo_reports_header:
  assumes "fst (create_net gpus (Some f) dev) = Handle net"
  shows "nativeGetInfo (Some net) True
           = Some [inputC net, trunkC net, blocks net, policyC net, valueC net, policySize net,
                   paramCount net]
         \<and> inputC net = header_field f 0 \<and> trunkC net = header_field f 1
         \<and> blocks net = header_field f 2 \<and> policyC net = header_field f 3
         \<and> valueC net = header_field f 4 \<and> policySize net = header_field f 6
         \<and> blocks net = int (length (tower net)) \<and> list_all block_loaded (tower net)"
  using create_net_header(1,2) [OF assms] create_net_loaded [OF assms]
  by (simp add: nativeGetInfo_def net_header_def)

theorem getInfo_reports_header_witness:
  "fst (create_net 1 (Some file_112) dev0) = Handle net112
   \<and> nativeGetInfo (Some net112) True = Some [112, 1, 1, 1, 1, 2, 131]
   \<and> header_field file_112 0 = 112 \<and> header_field file_112 1 = 1
   \<and> header_field file_112 2 = 1 \<and> header_field file_112 3 = 1
   \<and> header_field file_112 4 = 1 \<and> header_field file_112 6 = 2
   \<and> int (length (tower net112)) = 1 \<and> list_all block_loaded (tower net112)"
  using getInfo_reports_header [OF create_net_file_112] create_net_file_112
  by (simp add: net112_def del: One_nat_def)

subsection \<open>The policy map\<close>


lemma m_policyPlanes_value_head [simp]:
  "m_policyPlanes (eval_value_head net dev ws) = m_policyPlanes ws"
  by (simp add: eval_value_head_def Let_def)

lemma m_policyPlanes_policy_map [simp]:
  "m_policyPlanes (eval_policy_map net dev ws) = m_policyPlanes ws"
  by (simp add: eval_policy_map_def)




subsection \<open>Squeeze-excite records of the wrong shape\<close>

text \<open>
  Claim C2 does not hold of the code. \<open>load_se\<close> compares the channel count of the record
  with the one of the second convolution and nothing else: the record \<open>se_record_wrong\<close>
  declares \<open>hidden\<close> 2 and \<open>channels\<close> 1, so that \<open>w1\<close>, \<open>b1\<close>, \<open>w2\<close>, \<open>b2\<close> should
  have 2, 2, 4 and 2 elements, gives one element to each, and is loaded: \<open>load_se\<close> returns
  \<open>true\<close> with four device buffers of one element.
\<close>

theorem load_se_accepts_wrong_sizes:
  "(case load_se se_record_wrong SeUnit0 False 1 0 dev0 of
      (ok, f1, s, present, maxHidden, dev1) \<Rightarrow>
        ok \<and> present \<and> f1 = [] \<and> se_hidden s = 2 \<and> se_channels s = 1 \<and> se_params s = 4
        \<and> allocs dev1 = [(4, 1), (3, 1), (2, 1), (1, 1)])"
  by code_simp

text \<open>
  Claim C3 does not hold of the code either, for the same reason: the file
  \<open>file_se_wrong\<close>, whose squeeze-excite arrays have the wrong shape, is not refused.
  \<open>create_net\<close> returns a net, with its 35 device buffers allocated and none freed.
\<close>

theorem create_net_accepts_wrong_se_sizes:
  "fst (create_net 1 (Some file_se_wrong) dev0) = Handle net_se_wrong
   \<and> length (allocs (snd (create_net 1 (Some file_se_wrong) dev0))) = 35
   \<and> frees (snd (create_net 1 (Some file_se_wrong) dev0)) = []"
  by code_simp

theorem create_net_accepts_wrong_se_sizes_witness:
  "fst (create_net 1 (Some file_se_wrong) dev0) \<noteq> Null
   \<and> handle_of (fst (create_net 1 (Some file_se_wrong) dev0)) = Some net_se_wrong"
  using create_net_accepts_wrong_se_sizes
  by (simp add: handle_of_def del: One_nat_def)

text \<open>
  A negative length of the policy map is not refused either: it passes the comparison with
  the header and reaches the constructor of \<open>std::vector\<close>, which throws. The exception
  leaves \<open>create_net\<close> past every \<open>return fail()\<close>, so the twelve buffers of the layers
  stay allocated.
\<close>

lemma create_net_negative_map_throws:
  "fst (create_net 1 (Some file_neg_map) dev0) = Throws
   \<and> length (allocs (snd (create_net 1 (Some file_neg_map) dev0))) = 12
   \<and> frees (snd (create_net 1 (Some file_neg_map) dev0)) = []"
  by code_simp

subsection \<open>The 3x3 convolution\<close>

text \<open>
  One input channel adds to the accumulator the nine products of its 3x3 neighbourhood,
  a neighbour off the board counting as 0; weight \<open>(ky, kx)\<close> is at offset
  \<open>(ky + 1) * 3 + (kx + 1)\<close> of the channel's nine weights whether or not earlier
  neighbours were skipped.
\<close>

lemma conv3x3_ic_sum:
  assumes "0 \<le> row" "row < 8" "0 \<le> col" "col < 8"
  shows "conv3x3_ic input w ocBase row col ic acc
           = acc + (\<Sum>ky \<in> {- 1, 0, 1}. \<Sum>kx \<in> {- 1, 0, 1}.
               (if 0 \<le> row + ky \<and> row + ky < 8 \<and> 0 \<le> col + kx \<and> col + kx < 8
                then input ! nat (ic * 64 + (row + ky) * 8 + (col + kx)) else 0)
               * w ! nat (ocBase + ic * 9 + (ky + 1) * 3 + (kx + 1)))"
  using assms
  by (simp add: conv3x3_ic_def conv3x3_ky_def conv3x3_kx_def Let_def push_bit_eq_mult
        add.assoc algebra_simps)

text \<open>
  Claim C7. For output channel \<open>oc\<close> and square \<open>(row, col)\<close>, the 3x3 convolution stores
  at \<open>out[oc * 64 + row * 8 + col]\<close> the sum over all input channels \<open>ic\<close> and all kernel
  offsets \<open>(ky, kx)\<close> in {-1,0,1} x {-1,0,1} of
  \<open>input[ic][row + ky][col + kx] * w[oc][ic][ky + 1][kx + 1]\<close>, where a neighbour whose row
  or column is outside [0, 8) contributes 0, and where the weight index is the one of
  \<open>(ky, kx)\<close> in the layout \<open>[outC][inC][3][3]\<close> whatever was skipped.
\<close>

theorem conv3x3_zero_padding:
  assumes "0 \<le> oc" "oc < outC" "0 \<le> row" "row < 8" "0 \<le> col" "col < 8"
  shows "k_conv3x3_no_bias input w inC outC out ! nat (oc * 64 + row * 8 + col)
           = (\<Sum>ic = 0..<nat inC. \<Sum>ky \<in> {- 1, 0, 1}. \<Sum>kx \<in> {- 1, 0, 1}.
               (if 0 \<le> row + ky \<and> row + ky < 8 \<and> 0 \<le> col + kx \<and> col + kx < 8
                then input ! nat (int ic * 64 + (row + ky) * 8 + (col + kx)) else 0)
               * w ! nat (((oc * inC + int ic) * 3 + (ky + 1)) * 3 + (kx + 1)))"
proof -
  let ?s = "row * 8 + col"
  let ?idx = "oc * 64 + ?s"
  from assms have s: "0 \<le> ?s" "?s < 64"
    by simp_all
  with assms have idx: "0 \<le> ?idx" "?idx < outC * 64"
    by simp_all
  from assms have "total64 outC = nat outC * 64"
    by (simp add: total64_nat)
  with idx have lt: "nat ?idx < total64 outC"
    by (simp add: nat_less_iff nat_mult_distrib)
  have oc: "drop_bit 6 ?idx = oc" and sq: "?idx AND 63 = ?s"
    using s by (simp_all only: idx_channel idx_square)
  have rw: "drop_bit 3 ?s = row" and cl: "?s AND 7 = col"
    using assms by (simp_all only: square_row square_col)
  have w: "oc * inC * 9 + (ic * 9 + ((ky + 1) * 3 + (kx + 1)))
      = ((oc * inC + ic) * 3 + (ky + 1)) * 3 + (kx + 1)" for ic ky kx :: int
    by (simp add: algebra_simps)
  have "k_conv3x3_no_bias input w inC outC out ! nat ?idx
      = for_loop inC (conv3x3_ic input w (oc * inC * 9) row col) 0"
    using idx(1) assms(2)
    by (simp add: k_conv3x3_no_bias_def parallel_for_nth [OF lt] Let_def
          oc [simplified add.assoc] sq [simplified add.assoc] rw cl add.assoc)
  also have "\<dots> = 0 + (\<Sum>ic = 0..<nat inC. \<Sum>ky \<in> {- 1, 0, 1}. \<Sum>kx \<in> {- 1, 0, 1}.
               (if 0 \<le> row + ky \<and> row + ky < 8 \<and> 0 \<le> col + kx \<and> col + kx < 8
                then input ! nat (int ic * 64 + (row + ky) * 8 + (col + kx)) else 0)
               * w ! nat (oc * inC * 9 + int ic * 9 + (ky + 1) * 3 + (kx + 1)))"
    by (rule for_loop_sum) (rule conv3x3_ic_sum [OF assms(3-6)])
  finally have "k_conv3x3_no_bias input w inC outC out ! nat ?idx
      = (\<Sum>ic = 0..<nat inC. \<Sum>ky \<in> {- 1, 0, 1}. \<Sum>kx \<in> {- 1, 0, 1}.
               (if 0 \<le> row + ky \<and> row + ky < 8 \<and> 0 \<le> col + kx \<and> col + kx < 8
                then input ! nat (int ic * 64 + (row + ky) * 8 + (col + kx)) else 0)
               * w ! nat (oc * inC * 9 + (int ic * 9 + ((ky + 1) * 3 + (kx + 1)))))"
    by (simp only: add.assoc add_0)
  moreover have "oc * 64 + row * 8 + col = ?idx"
    by simp
  ultimately show ?thesis
    by (simp only: w)
qed

theorem conv3x3_zero_padding_witness:
  "(0 :: int) \<le> 0 \<and> (0 :: int) < 1 \<and> (0 :: int) \<le> 0 \<and> (0 :: int) < 8
   \<and> (0 :: int) \<le> 7 \<and> (7 :: int) < 8
   \<and> k_conv3x3_no_bias (replicate 64 1) [1, 2, 3, 4, 5, 6, 7, 8, 9] 1 1 []
         ! nat (0 * 64 + 0 * 8 + 7) = 4 + 5 + 7 + 8"
  using conv3x3_zero_padding [of 0 1 0 7 "replicate 64 1" "[1, 2, 3, 4, 5, 6, 7, 8, 9]" 1 "[]"]
  by simp

subsection \<open>The residual block with a squeeze-excite unit\<close>


lemma block_se_gates_frame [simp]:
  "m_cur (block_se_gates dev b ws) = m_cur ws"
  "m_scratch (block_se_gates dev b ws) = m_scratch ws"
  "m_next (block_se_gates dev b ws) = m_next ws"
  by (simp_all add: block_se_gates_def Let_def)

lemma block_convs_frame [simp]:
  "m_cur (block_convs dev b ws) = m_cur ws"
  "m_next (block_convs dev b ws) = m_next ws"
  by (simp_all add: block_convs_def Let_def)



subsection \<open>The WDL triple under rounding\<close>

lemma softmax_host_fl_exact:
  "softmax_host_fl (\<lambda>x. x) (\<lambda>x. x) (\<lambda>x. x) exp xs = softmax_host xs"
  by (simp add: softmax_host_fl_def softmax_host_def)

text \<open>
  The sum of three rounded quotients \<open>e / s\<close>, where \<open>s\<close> is the rounded sum \<open>S\<close> of the
  three numerators.
\<close>

lemma rounded_quotients_sum:
  fixes u eta S s e0 e1 e2 w d l :: real
  assumes u: "0 \<le> u" "u \<le> 1 / 4" and S: "1 \<le> S" "S = e0 + e1 + e2"
    and e: "0 \<le> e0" "0 \<le> e1" "0 \<le> e2"
    and lo: "(1 - u) * (1 - u) * S \<le> s" and hi: "s \<le> (1 + u) * (1 + u) * S"
    and w: "\<bar>w - e0 / s\<bar> \<le> u * (e0 / s) + eta"
    and d: "\<bar>d - e1 / s\<bar> \<le> u * (e1 / s) + eta"
    and l: "\<bar>l - e2 / s\<bar> \<le> u * (e2 / s) + eta"
  shows "\<bar>w + d + l - 1\<bar> \<le> 6 * u + 3 * eta"
proof -
  from u have q: "9 / 16 \<le> (1 - u) * (1 - u)"
  proof -
    from u have "3 / 4 \<le> 1 - u"
      by simp
    then have "(3 / 4) * (3 / 4) \<le> (1 - u) * (1 - u)"
      by (intro mult_mono) simp_all
    then show ?thesis
      by simp
  qed
  from S have S0: "0 \<le> S"
    by simp
  have "9 / 16 * S \<le> (1 - u) * (1 - u) * S"
    using q S0 by (intro mult_right_mono) simp_all
  with lo have sS: "9 / 16 * S \<le> s"
    by simp
  with S have s0: "0 < s"
    by simp
  from sS have Ss: "S \<le> 16 / 9 * s"
    by simp
  have up: "s - S \<le> (2 * u + u * u) * S"
    using hi by (simp add: algebra_simps)
  have dn: "S - s \<le> (2 * u + u * u) * S"
  proof -
    from lo have "S - s \<le> (2 * u - u * u) * S"
      by (simp add: algebra_simps)
    also have "\<dots> \<le> (2 * u + u * u) * S"
      using u S0 by (intro mult_right_mono) simp_all
    finally show ?thesis .
  qed
  have uu: "2 * u + u * u \<le> 9 / 4 * u"
  proof -
    from u have "u * u \<le> 1 / 4 * u"
      by (intro mult_right_mono) simp_all
    then show ?thesis
      by simp
  qed
  have "(2 * u + u * u) * S \<le> 9 / 4 * u * S"
    using uu S0 by (intro mult_right_mono) simp_all
  also have "\<dots> \<le> 9 / 4 * u * (16 / 9 * s)"
    using Ss u by (intro mult_left_mono) simp_all
  finally have b: "(2 * u + u * u) * S \<le> 4 * u * s"
    by (simp add: mult.commute)
  from up dn b have "\<bar>S - s\<bar> \<le> 4 * u * s"
    by simp
  then have q1: "\<bar>S / s - 1\<bar> \<le> 4 * u"
    using s0 by (simp add: field_simps abs_le_iff)
  have q2: "u * (S / s) \<le> 2 * u"
  proof -
    from Ss s0 have "S / s \<le> 16 / 9"
      by (simp add: field_simps)
    then have "u * (S / s) \<le> u * (16 / 9)"
      using u by (intro mult_left_mono) simp_all
    also have "\<dots> \<le> 2 * u"
      using u by simp
    finally show ?thesis .
  qed
  have "\<bar>(w + d + l) - S / s\<bar> = \<bar>(w - e0 / s) + (d - e1 / s) + (l - e2 / s)\<bar>"
    by (simp add: S add_divide_distrib)
  also have "\<dots> \<le> \<bar>w - e0 / s\<bar> + \<bar>d - e1 / s\<bar> + \<bar>l - e2 / s\<bar>"
    by linarith
  also have "\<dots> \<le> u * (e0 / s) + u * (e1 / s) + u * (e2 / s) + 3 * eta"
    using w d l by linarith
  also have "\<dots> = u * (S / s) + 3 * eta"
    by (simp add: S add_divide_distrib algebra_simps)
  finally have "\<bar>(w + d + l) - S / s\<bar> \<le> 2 * u + 3 * eta"
    using q2 by linarith
  with q1 show ?thesis
    by linarith
qed

text \<open>
  With floats that round: let every addition have a relative error of at most \<open>u\<close>, every
  division a relative error of at most \<open>u\<close> and an absolute one of at most \<open>eta\<close> (for
  a quotient that underflows), let \<open>x - x\<close> be 0, and let \<open>std::exp\<close> return 1 at 0 and
  never a negative number. Then the three numbers that \<open>eval_one\<close> stores add up to 1
  within \<open>6 * u + 3 * eta\<close>, whatever the logits are.
\<close>

lemma softmax_rounded_sum:
  assumes u: "0 \<le> u" "u \<le> 1 / 4"
    and sub: "rsub 0 = 0"
    and add: "\<And>x. \<bar>radd x - x\<bar> \<le> u * \<bar>x\<bar>"
    and dv: "\<And>x. \<bar>rdiv x - x\<bar> \<le> u * \<bar>x\<bar> + eta"
    and ex: "\<And>x. 0 \<le> fexp x" "fexp 0 = 1"
    and r: "softmax_host_fl rsub radd rdiv fexp xs = (w, d, l)"
  shows "\<bar>w + d + l - 1\<bar> \<le> 6 * u + 3 * eta"
proof -
  define m where "m = max (xs ! 0) (max (xs ! 1) (xs ! 2))"
  define e0 where "e0 = fexp (rsub (xs ! 0 - m))"
  define e1 where "e1 = fexp (rsub (xs ! 1 - m))"
  define e2 where "e2 = fexp (rsub (xs ! 2 - m))"
  define t where "t = radd (e0 + e1)"
  define s where "s = radd (t + e2)"
  define S where "S = e0 + e1 + e2"
  have e: "0 \<le> e0" "0 \<le> e1" "0 \<le> e2"
    by (simp_all add: e0_def e1_def e2_def ex)
  have "m = xs ! 0 \<or> m = xs ! 1 \<or> m = xs ! 2"
    by (auto simp: m_def max_def)
  then have "e0 = 1 \<or> e1 = 1 \<or> e2 = 1"
    by (auto simp: e0_def e1_def e2_def sub ex)
  with e have S1: "1 \<le> S"
    by (auto simp: S_def)
  from u have u1: "0 \<le> 1 - u" "0 \<le> 1 + u"
    by simp_all
  from add [of "e0 + e1"] e have t: "(1 - u) * (e0 + e1) \<le> t" "t \<le> (1 + u) * (e0 + e1)"
    by (simp_all add: t_def abs_le_iff algebra_simps)
  from t(1) u1 e have t0: "0 \<le> t"
    by (meson add_nonneg_nonneg mult_nonneg_nonneg order_trans)
  from add [of "t + e2"] t0 e have s: "(1 - u) * (t + e2) \<le> s" "s \<le> (1 + u) * (t + e2)"
    by (simp_all add: s_def abs_le_iff algebra_simps)
  have lo: "(1 - u) * (1 - u) * S \<le> s"
  proof -
    have "(1 - u) * e2 \<le> e2"
      using u e by (simp add: mult_left_le_one_le)
    with t(1) have "(1 - u) * (e0 + e1) + (1 - u) * e2 \<le> t + e2"
      by simp
    then have "(1 - u) * S \<le> t + e2"
      by (simp add: S_def algebra_simps)
    then have "(1 - u) * ((1 - u) * S) \<le> (1 - u) * (t + e2)"
      using u1 by (intro mult_left_mono) simp_all
    with s(1) show ?thesis
      by (simp add: mult.assoc)
  qed
  have hi: "s \<le> (1 + u) * (1 + u) * S"
  proof -
    have "e2 \<le> (1 + u) * e2"
      using u e by (simp add: mult_le_cancel_right1)
    with t(2) have "t + e2 \<le> (1 + u) * (e0 + e1) + (1 + u) * e2"
      by simp
    then have "t + e2 \<le> (1 + u) * S"
      by (simp add: S_def algebra_simps)
    then have "(1 + u) * (t + e2) \<le> (1 + u) * ((1 + u) * S)"
      using u1 by (intro mult_left_mono) simp_all
    with s(2) show ?thesis
      by (simp add: mult.assoc)
  qed
  have "9 / 16 \<le> (1 - u) * (1 - u)"
  proof -
    from u have "3 / 4 \<le> 1 - u"
      by simp
    then have "(3 / 4) * (3 / 4) \<le> (1 - u) * (1 - u)"
      by (intro mult_mono) simp_all
    then show ?thesis
      by simp
  qed
  then have "9 / 16 * S \<le> (1 - u) * (1 - u) * S"
    using S1 by (intro mult_right_mono) simp_all
  with lo S1 have s0: "0 < s"
    by linarith
  have wdl: "w = rdiv (e0 / s)" "d = rdiv (e1 / s)" "l = rdiv (e2 / s)"
    using r s0
    unfolding softmax_host_fl_def Let_def s_def t_def e0_def e1_def e2_def m_def
    by auto
  have q: "\<bar>rdiv (x / s) - x / s\<bar> \<le> u * (x / s) + eta" if "0 \<le> x" for x
    using dv [of "x / s"] that s0 by simp
  show ?thesis
    using u S1 _ e lo hi
  proof (rule rounded_quotients_sum)
    show "S = e0 + e1 + e2"
      by (simp add: S_def)
    show "\<bar>w - e0 / s\<bar> \<le> u * (e0 / s) + eta"
      unfolding wdl using e(1) by (rule q)
    show "\<bar>d - e1 / s\<bar> \<le> u * (e1 / s) + eta"
      unfolding wdl using e(2) by (rule q)
    show "\<bar>l - e2 / s\<bar> \<le> u * (e2 / s) + eta"
      unfolding wdl using e(3) by (rule q)
  qed
qed


text \<open>Without rounding the bound is the exact sum of \<open>softmax_host\<close>.\<close>

lemma softmax_exact_from_rounded:
  assumes "softmax_host xs = (w, d, l)"
  shows "\<bar>w + d + l - 1\<bar> \<le> 6 * 0 + 3 * 0"
  by (rule softmax_rounded_sum [where rsub = "\<lambda>x. x" and radd = "\<lambda>x. x" and rdiv = "\<lambda>x. x"
        and fexp = exp and xs = xs])
     (simp_all add: softmax_host_fl_exact assms)

end
